theory Spec2Isabelle
  imports Complex_Main
begin

section \<open>JavaScript numbers\<close>

text \<open>
  Every number of the program is a JavaScript \<^verbatim>\<open>number\<close>. A finite double is idealised as
  the real it stands for (\<open>Fin\<close>): rounding, overflow of finite results and the sign of zero
  are not modelled, and a zero divisor counts as \<^verbatim>\<open>+0\<close>. The three special values are kept,
  with the IEEE 754 tables of each operator, because the program divides by a difference
  that can be zero.
\<close>

datatype jsnum = Fin real | PInf | NInf | NaN

fun js_neg :: "jsnum \<Rightarrow> jsnum" where
  "js_neg (Fin a) = Fin (- a)"
| "js_neg PInf = NInf"
| "js_neg NInf = PInf"
| "js_neg NaN = NaN"

fun js_add :: "jsnum \<Rightarrow> jsnum \<Rightarrow> jsnum" where
  "js_add NaN _ = NaN"
| "js_add _ NaN = NaN"
| "js_add (Fin a) (Fin b) = Fin (a + b)"
| "js_add PInf NInf = NaN"
| "js_add NInf PInf = NaN"
| "js_add PInf _ = PInf"
| "js_add NInf _ = NInf"
| "js_add (Fin a) PInf = PInf"
| "js_add (Fin a) NInf = NInf"

definition js_sub :: "jsnum \<Rightarrow> jsnum \<Rightarrow> jsnum" where
  "js_sub a b = js_add a (js_neg b)"

text \<open>The sign of a product or quotient with an infinite operand.\<close>

definition js_signed_inf :: "bool \<Rightarrow> jsnum" where
  "js_signed_inf negative = (if negative then NInf else PInf)"

fun js_mul :: "jsnum \<Rightarrow> jsnum \<Rightarrow> jsnum" where
  "js_mul NaN _ = NaN"
| "js_mul _ NaN = NaN"
| "js_mul (Fin a) (Fin b) = Fin (a * b)"
| "js_mul (Fin a) PInf = (if a = 0 then NaN else js_signed_inf (a < 0))"
| "js_mul (Fin a) NInf = (if a = 0 then NaN else js_signed_inf (0 < a))"
| "js_mul PInf (Fin b) = (if b = 0 then NaN else js_signed_inf (b < 0))"
| "js_mul NInf (Fin b) = (if b = 0 then NaN else js_signed_inf (0 < b))"
| "js_mul PInf PInf = PInf"
| "js_mul PInf NInf = NInf"
| "js_mul NInf PInf = NInf"
| "js_mul NInf NInf = PInf"

fun js_div :: "jsnum \<Rightarrow> jsnum \<Rightarrow> jsnum" where
  "js_div NaN _ = NaN"
| "js_div _ NaN = NaN"
| "js_div (Fin a) (Fin b) =
     (if b = 0 then (if a = 0 then NaN else js_signed_inf (a < 0)) else Fin (a / b))"
| "js_div (Fin a) PInf = Fin 0"
| "js_div (Fin a) NInf = Fin 0"
| "js_div PInf (Fin b) = js_signed_inf (b < 0)"
| "js_div NInf (Fin b) = js_signed_inf (0 \<le> b)"
| "js_div PInf PInf = NaN"
| "js_div PInf NInf = NaN"
| "js_div NInf PInf = NaN"
| "js_div NInf NInf = NaN"

text \<open>Rounding toward zero, and the remainder operator \<^verbatim>\<open>%\<close>, whose result takes the sign
  of the dividend.\<close>

definition js_trunc :: "real \<Rightarrow> int" where
  "js_trunc x = (if 0 \<le> x then \<lfloor>x\<rfloor> else \<lceil>x\<rceil>)"

fun js_rem :: "jsnum \<Rightarrow> jsnum \<Rightarrow> jsnum" where
  "js_rem (Fin a) (Fin b) = (if b = 0 then NaN else Fin (a - b * of_int (js_trunc (a / b))))"
| "js_rem (Fin a) PInf = Fin a"
| "js_rem (Fin a) NInf = Fin a"
| "js_rem _ _ = NaN"

text \<open>\<^verbatim>\<open>Math.min\<close> of two arguments, \<^verbatim>\<open>Math.pow\<close> with a literal natural exponent,
  \<^verbatim>\<open>Math.sin\<close>, \<^verbatim>\<open>Math.cos\<close>, \<^verbatim>\<open>Math.sqrt\<close>.\<close>

fun js_min :: "jsnum \<Rightarrow> jsnum \<Rightarrow> jsnum" where
  "js_min NaN _ = NaN"
| "js_min _ NaN = NaN"
| "js_min NInf _ = NInf"
| "js_min _ NInf = NInf"
| "js_min PInf b = b"
| "js_min a PInf = a"
| "js_min (Fin a) (Fin b) = Fin (min a b)"

definition js_pow :: "jsnum \<Rightarrow> nat \<Rightarrow> jsnum" where
  "js_pow x n =
     (if n = 0 then Fin 1
      else case x of
             Fin a \<Rightarrow> Fin (a ^ n)
           | PInf \<Rightarrow> PInf
           | NInf \<Rightarrow> (if even n then PInf else NInf)
           | NaN \<Rightarrow> NaN)"

fun js_sin :: "jsnum \<Rightarrow> jsnum" where
  "js_sin (Fin a) = Fin (sin a)"
| "js_sin _ = NaN"

fun js_cos :: "jsnum \<Rightarrow> jsnum" where
  "js_cos (Fin a) = Fin (cos a)"
| "js_cos _ = NaN"

fun js_sqrt :: "jsnum \<Rightarrow> jsnum" where
  "js_sqrt (Fin a) = (if a < 0 then NaN else Fin (sqrt a))"
| "js_sqrt PInf = PInf"
| "js_sqrt _ = NaN"

text \<open>The comparison \<^verbatim>\<open><\<close> (false as soon as an operand is \<^verbatim>\<open>NaN\<close>), and the truthiness
  of a number as \<^verbatim>\<open>||\<close> tests it.\<close>

fun js_lt :: "jsnum \<Rightarrow> jsnum \<Rightarrow> bool" where
  "js_lt NaN _ = False"
| "js_lt _ NaN = False"
| "js_lt (Fin a) (Fin b) = (a < b)"
| "js_lt _ NInf = False"
| "js_lt PInf _ = False"
| "js_lt NInf _ = True"
| "js_lt (Fin a) PInf = True"

fun js_truthy :: "jsnum \<Rightarrow> bool" where
  "js_truthy (Fin a) = (a \<noteq> 0)"
| "js_truthy NaN = False"
| "js_truthy _ = True"

definition js_or :: "jsnum \<Rightarrow> jsnum \<Rightarrow> jsnum" where
  "js_or a b = (if js_truthy a then a else b)"

section \<open>Vectors of three.js\<close>

text \<open>
  \<^verbatim>\<open>THREE.Vector2\<close> with the one method the scenes call on it besides the field accesses:
  \<^verbatim>\<open>lerp(v, alpha)\<close> adds \<^verbatim>\<open>(v.x - this.x) * alpha\<close> to \<^verbatim>\<open>this.x\<close> and likewise for \<^verbatim>\<open>y\<close>;
  \<^verbatim>\<open>length()\<close> is the Euclidean norm.
\<close>

record vec2 =
  vx :: jsnum
  vy :: jsnum

definition lerp1 :: "jsnum \<Rightarrow> jsnum \<Rightarrow> jsnum \<Rightarrow> jsnum" where
  "lerp1 current target alpha = js_add current (js_mul (js_sub target current) alpha)"

definition vec2_lerp :: "vec2 \<Rightarrow> vec2 \<Rightarrow> jsnum \<Rightarrow> vec2" where
  "vec2_lerp this v alpha =
     \<lparr>vx = lerp1 (vx this) (vx v) alpha, vy = lerp1 (vy this) (vy v) alpha\<rparr>"

definition vec2_length :: "vec2 \<Rightarrow> jsnum" where
  "vec2_length v = js_sqrt (js_add (js_mul (vx v) (vx v)) (js_mul (vy v) (vy v)))"

text \<open>A \<^verbatim>\<open>THREE.Vector3\<close> is only ever written whole here: a triple.\<close>

type_synonym vec3 = "jsnum \<times> jsnum \<times> jsnum"

section \<open>The browser: frame callbacks and promises\<close>

text \<open>
  The closures the program hands to \<^verbatim>\<open>requestAnimationFrame\<close>: \<^verbatim>\<open>this.animate\<close> of the portal,
  the \<^verbatim>\<open>transitionAnimate\<close> closure of \<^verbatim>\<open>transitionOut\<close> (it captures \<^verbatim>\<open>startTime\<close> and the
  \<^verbatim>\<open>resolve\<close> function of its promise), and \<^verbatim>\<open>this.animate\<close> of a world scene (the number
  is the scene's place in the heap).
\<close>

datatype callback = PortalAnimate | TransitionAnimate jsnum nat | WorldAnimate nat

text \<open>
  The runtime keeps the callbacks requested for the next frame with their handles, the next
  handle, and for each promise created by \<^verbatim>\<open>transitionOut\<close> how many times its \<^verbatim>\<open>resolve\<close>
  has been called.
\<close>

record runtime =
  rafQueue :: "(nat \<times> callback) list"
  rafNext :: nat
  promises :: "nat list"

definition requestAnimationFrame :: "callback \<Rightarrow> runtime \<Rightarrow> nat \<times> runtime" where
  "requestAnimationFrame cb rt =
     (rafNext rt, rt\<lparr>rafQueue := rafQueue rt @ [(rafNext rt, cb)], rafNext := Suc (rafNext rt)\<rparr>)"

definition cancelAnimationFrame :: "nat \<Rightarrow> runtime \<Rightarrow> runtime" where
  "cancelAnimationFrame h rt = rt\<lparr>rafQueue := filter (\<lambda>(i, cb). i \<noteq> h) (rafQueue rt)\<rparr>"

definition new_promise :: "runtime \<Rightarrow> nat \<times> runtime" where
  "new_promise rt = (length (promises rt), rt\<lparr>promises := promises rt @ [0]\<rparr>)"

definition resolve :: "nat \<Rightarrow> runtime \<Rightarrow> runtime" where
  "resolve pid rt =
     (if pid < length (promises rt)
      then rt\<lparr>promises := (promises rt)[pid := Suc (promises rt ! pid)]\<rparr> else rt)"

definition resolve_calls :: "runtime \<Rightarrow> nat \<Rightarrow> nat" where
  "resolve_calls rt pid = (if pid < length (promises rt) then promises rt ! pid else 0)"

text \<open>What an \<^verbatim>\<open>async\<close> function hands back: a promise already fulfilled (a plain
  \<^verbatim>\<open>return\<close>), or one that follows a promise of the runtime.\<close>

datatype promise = Fulfilled | Follows nat

text \<open>The values a handler reads from \<^verbatim>\<open>window\<close>.\<close>

record window =
  innerWidth :: jsnum
  innerHeight :: jsnum
  devicePixelRatio :: jsnum

section \<open>GPU resources\<close>

text \<open>
  What \<^verbatim>\<open>scene.traverse\<close> visits: every object of the scene graph, with its geometry and its
  material when it has one (\<open>None\<close>: a group, a light, the scene). The number is how many
  times \<^verbatim>\<open>dispose()\<close> has been called on it: what such a call releases, and what a repeated
  call does, is three.js's business. No object of the two scenes has an array of
  materials. The renderer's \<^verbatim>\<open>dispose()\<close> is counted the same way, in the scene's record.
\<close>

record gpu_obj =
  geometryDisposals :: "nat option"
  materialDisposals :: "nat option"

definition plain_obj :: gpu_obj where
  "plain_obj = \<lparr>geometryDisposals = None, materialDisposals = None\<rparr>"

definition mesh_obj :: gpu_obj where
  "mesh_obj = \<lparr>geometryDisposals = Some 0, materialDisposals = Some 0\<rparr>"

definition dispose_obj :: "gpu_obj \<Rightarrow> gpu_obj" where
  "dispose_obj obj =
     \<lparr>geometryDisposals = map_option Suc (geometryDisposals obj),
      materialDisposals = map_option Suc (materialDisposals obj)\<rparr>"

section \<open>World scene\<close>

text \<open>\<^verbatim>\<open>this.gridFloor.position.z = -(time * 0.5) % 4\<close>: the unary minus binds tighter than
  \<^verbatim>\<open>%\<close>.\<close>

definition grid_offset :: "jsnum \<Rightarrow> jsnum" where
  "grid_offset time = js_rem (js_neg (js_mul time (Fin 0.5))) (Fin 4)"

text \<open>A mesh of \<^verbatim>\<open>floatingObjects\<close>: the position and rotation the frame loop writes, and
  the \<^verbatim>\<open>userData\<close> it reads.\<close>

record float_obj =
  fo_posX :: jsnum
  fo_posY :: jsnum
  fo_rotX :: jsnum
  fo_rotY :: jsnum
  fo_rotZ :: jsnum
  ud_startY :: jsnum
  ud_startX :: jsnum
  ud_floatSpeed :: jsnum
  ud_rotSpeed :: jsnum
  ud_phase :: jsnum
  ud_floatAmplitude :: jsnum

record WorldScene =
  w_isDestroyed :: bool
  w_animationId :: nat
  w_scrollProgress :: jsnum
  w_mouse :: vec2
  w_targetMouse :: vec2
  w_camX :: jsnum
  w_camY :: jsnum
  w_camZ :: jsnum
  w_camRotX :: jsnum
  w_camRotY :: jsnum
  w_camAspect :: jsnum
  w_starTime :: jsnum
  w_floating :: "float_obj list"
  w_gridZ :: jsnum
  w_fogTimes :: "jsnum list"
  w_rendererSize :: "jsnum \<times> jsnum"
  w_pixelRatio :: jsnum
  w_renders :: nat
  w_rendererDisposals :: nat
  w_graph :: "gpu_obj list"

definition float_step :: "jsnum \<Rightarrow> float_obj \<Rightarrow> float_obj" where
  "float_step time obj = obj
     \<lparr>fo_posY := js_add (ud_startY obj)
         (js_mul (js_sin (js_add (js_mul time (ud_floatSpeed obj)) (ud_phase obj)))
                 (js_or (ud_floatAmplitude obj) (Fin 0.5))),
      fo_posX := js_add (ud_startX obj)
         (js_mul (js_cos (js_add (js_mul (js_mul time (ud_floatSpeed obj)) (Fin 0.5)) (ud_phase obj)))
                 (Fin 0.3)),
      fo_rotX := js_add (fo_rotX obj) (js_mul (ud_rotSpeed obj) (Fin 0.003)),
      fo_rotY := js_add (fo_rotY obj) (js_mul (ud_rotSpeed obj) (Fin 0.004)),
      fo_rotZ := js_add (fo_rotZ obj) (js_mul (ud_rotSpeed obj) (Fin 0.001))\<rparr>"

text \<open>
  \<^verbatim>\<open>animate\<close>, the frame callback. \<open>self\<close> is the scene's place in the heap (the callback it
  requests is its own), \<open>time\<close> the reading of \<^verbatim>\<open>this.clock.getElapsedTime()\<close>.
\<close>

definition world_animate :: "nat \<Rightarrow> jsnum \<Rightarrow> runtime \<times> WorldScene \<Rightarrow> runtime \<times> WorldScene" where
  "world_animate self time = (\<lambda>(rt, w).
     if w_isDestroyed w then (rt, w)
     else
       let (h, rt') = requestAnimationFrame (WorldAnimate self) rt;
           mouse = vec2_lerp (w_mouse w) (w_targetMouse w) (Fin 0.03);
           targetY = js_sub (Fin 2) (js_mul (w_scrollProgress w) (Fin 3));
           targetZ = js_sub (Fin 10) (js_mul (w_scrollProgress w) (Fin 5))
       in (rt', w
         \<lparr>w_animationId := h,
          w_mouse := mouse,
          w_camY := js_add (w_camY w) (js_mul (js_sub targetY (w_camY w)) (Fin 0.05)),
          w_camZ := js_add (w_camZ w) (js_mul (js_sub targetZ (w_camZ w)) (Fin 0.05)),
          w_camX := js_add (w_camX w)
                      (js_mul (js_sub (js_mul (vx mouse) (Fin 1.5)) (w_camX w)) (Fin 0.02)),
          w_camRotY := js_mul (js_neg (vx mouse)) (Fin 0.02),
          w_camRotX := js_mul (vy mouse) (Fin 0.01),
          w_starTime := time,
          w_floating := map (float_step time) (w_floating w),
          w_gridZ := grid_offset time,
          w_fogTimes := map (\<lambda>_. time) (w_fogTimes w),
          w_renders := Suc (w_renders w)\<rparr>))"

definition updateScroll :: "jsnum \<Rightarrow> WorldScene \<Rightarrow> WorldScene" where
  "updateScroll progress w = w\<lparr>w_scrollProgress := progress\<rparr>"

text \<open>The listeners of \<^verbatim>\<open>setupEvents\<close>: \<^verbatim>\<open>handleMove\<close> (mouse and first touch) and the resize
  handler.\<close>

definition world_handleMove :: "window \<Rightarrow> jsnum \<Rightarrow> jsnum \<Rightarrow> WorldScene \<Rightarrow> WorldScene" where
  "world_handleMove win x y w = w
     \<lparr>w_targetMouse :=
        \<lparr>vx = js_sub (js_mul (js_div x (innerWidth win)) (Fin 2)) (Fin 1),
         vy = js_add (js_mul (js_neg (js_div y (innerHeight win))) (Fin 2)) (Fin 1)\<rparr>\<rparr>"

definition world_resize :: "window \<Rightarrow> WorldScene \<Rightarrow> WorldScene" where
  "world_resize win w =
     (if w_isDestroyed w then w
      else w\<lparr>w_camAspect := js_div (innerWidth win) (innerHeight win),
             w_rendererSize := (innerWidth win, innerHeight win),
             w_pixelRatio := js_min (devicePixelRatio win) (Fin 1.5)\<rparr>)"

definition world_destroy :: "runtime \<times> WorldScene \<Rightarrow> runtime \<times> WorldScene" where
  "world_destroy = (\<lambda>(rt, w).
     (cancelAnimationFrame (w_animationId w) rt,
      w\<lparr>w_isDestroyed := True,
        w_rendererDisposals := Suc (w_rendererDisposals w),
        w_graph := map dispose_obj (w_graph w)\<rparr>))"

text \<open>
  The constructor and \<^verbatim>\<open>init\<close>. The meshes that \<^verbatim>\<open>init\<close> draws from \<^verbatim>\<open>Math.random()\<close> are
  an argument: for each of the floating objects its \<^verbatim>\<open>startX\<close>, \<^verbatim>\<open>startY\<close>, \<^verbatim>\<open>floatSpeed\<close>,
  \<^verbatim>\<open>rotSpeed\<close>, \<^verbatim>\<open>phase\<close> and \<^verbatim>\<open>floatAmplitude\<close> (eighteen in the program). The scene graph
  is listed in the order \<^verbatim>\<open>traverse\<close> visits it: the scene, the star field, the grid group
  and its 202 lines, the group of floating meshes, the group of eight fog planes, three
  lights. \<^verbatim>\<open>init\<close> ends by calling \<^verbatim>\<open>animate\<close>, whose first clock reading is 0.
\<close>

type_synonym float_seed = "jsnum \<times> jsnum \<times> jsnum \<times> jsnum \<times> jsnum \<times> jsnum"

definition mk_float :: "float_seed \<Rightarrow> float_obj" where
  "mk_float = (\<lambda>(startX, startY, floatSpeed, rotSpeed, phase, floatAmplitude).
     \<lparr>fo_posX = startX, fo_posY = startY,
      fo_rotX = Fin 0, fo_rotY = Fin 0, fo_rotZ = Fin 0,
      ud_startY = startY, ud_startX = startX, ud_floatSpeed = floatSpeed,
      ud_rotSpeed = rotSpeed, ud_phase = phase, ud_floatAmplitude = floatAmplitude\<rparr>)"

definition world_graph :: "nat \<Rightarrow> gpu_obj list" where
  "world_graph n =
     [plain_obj, mesh_obj, plain_obj] @ replicate 202 mesh_obj @
     [plain_obj] @ replicate n mesh_obj @
     [plain_obj] @ replicate 8 mesh_obj @
     [plain_obj, plain_obj, plain_obj]"

definition new_WorldScene ::
  "nat \<Rightarrow> window \<Rightarrow> float_seed list \<Rightarrow> runtime \<Rightarrow> runtime \<times> WorldScene" where
  "new_WorldScene self win seeds rt =
     world_animate self (Fin 0) (rt,
       \<lparr>w_isDestroyed = False,
        w_animationId = 0,
        w_scrollProgress = Fin 0,
        w_mouse = \<lparr>vx = Fin 0, vy = Fin 0\<rparr>,
        w_targetMouse = \<lparr>vx = Fin 0, vy = Fin 0\<rparr>,
        w_camX = Fin 0,
        w_camY = Fin 2,
        w_camZ = Fin 10,
        w_camRotX = Fin 0,
        w_camRotY = Fin 0,
        w_camAspect = js_div (innerWidth win) (innerHeight win),
        w_starTime = Fin 0,
        w_floating = map mk_float seeds,
        w_gridZ = Fin 0,
        w_fogTimes = replicate 8 (Fin 0),
        w_rendererSize = (innerWidth win, innerHeight win),
        w_pixelRatio = js_min (devicePixelRatio win) (Fin 2),
        w_renders = 0,
        w_rendererDisposals = 0,
        w_graph = world_graph (length seeds)\<rparr>)"

section \<open>Portal scene\<close>

text \<open>A ring of \<^verbatim>\<open>this.rings\<close>: what the frame loops write (rotation about y and z, the
  uniform scale, the opacity of its material) and the \<^verbatim>\<open>userData\<close> they read.\<close>

record ring =
  rg_rotY :: jsnum
  rg_rotZ :: jsnum
  rg_scale :: jsnum
  rg_opacity :: jsnum
  ud_speed :: jsnum
  ud_baseTilt :: jsnum

record PortalScene =
  p_isDestroyed :: bool
  p_isTransitioning :: bool
  p_animationId :: nat
  p_mouse :: vec2
  p_targetMouse :: vec2
  p_camZ :: jsnum
  p_camFov :: jsnum
  p_camAspect :: jsnum
  p_globeRotX :: jsnum
  p_globeRotY :: jsnum
  p_coreRotX :: jsnum
  p_coreRotY :: jsnum
  p_globeTime :: jsnum
  p_mouseInfluence :: vec2
  p_glowIntensity :: jsnum
  p_coreTime :: jsnum
  p_coreIntensity :: jsnum
  p_particleTime :: jsnum
  p_rings :: "ring list"
  p_particlesRotX :: jsnum
  p_particlesRotY :: jsnum
  p_positions :: "vec3 list"
  p_cursorMousePos :: vec3
  p_cursorTime :: jsnum
  p_rendererSize :: "jsnum \<times> jsnum"
  p_renders :: nat
  p_rendererDisposals :: nat
  p_graph :: "gpu_obj list"

definition ring_step :: "jsnum \<Rightarrow> ring \<Rightarrow> ring" where
  "ring_step time r = r
     \<lparr>rg_rotY := js_add (rg_rotY r) (js_mul (ud_speed r) (Fin 0.01)),
      rg_rotZ := js_mul (js_sin (js_add (js_mul time (Fin 0.3)) (ud_baseTilt r))) (Fin 0.05)\<rparr>"

text \<open>\<^verbatim>\<open>animate\<close>, the frame callback of the portal; \<open>time\<close> is the clock reading.\<close>

definition portal_animate :: "jsnum \<Rightarrow> runtime \<times> PortalScene \<Rightarrow> runtime \<times> PortalScene" where
  "portal_animate time = (\<lambda>(rt, p).
     if p_isDestroyed p then (rt, p)
     else
       let (h, rt') = requestAnimationFrame PortalAnimate rt;
           mouse = vec2_lerp (p_mouse p) (p_targetMouse p) (Fin 0.05);
           mouseDist = vec2_length mouse;
           glowTarget = js_add (Fin 0.5) (js_mul mouseDist (Fin 0.5))
       in (rt', p
         \<lparr>p_animationId := h,
          p_mouse := mouse,
          p_globeRotY := js_add (js_mul time (Fin 0.15)) (js_mul (vx mouse) (Fin 0.3)),
          p_globeRotX := js_add (js_mul (js_sin (js_mul time (Fin 0.2))) (Fin 0.1))
                                (js_mul (vy mouse) (Fin 0.2)),
          p_coreRotY := js_mul (js_neg time) (Fin 0.2),
          p_coreRotX := js_mul time (Fin 0.1),
          p_globeTime := time,
          p_mouseInfluence := \<lparr>vx = vx mouse, vy = vy mouse\<rparr>,
          p_glowIntensity := js_add (p_glowIntensity p)
                               (js_mul (js_sub glowTarget (p_glowIntensity p)) (Fin 0.05)),
          p_coreTime := time,
          p_particleTime := time,
          p_rings := map (ring_step time) (p_rings p),
          p_particlesRotY := js_mul time (Fin 0.02),
          p_particlesRotX := js_mul (js_sin (js_mul time (Fin 0.05))) (Fin 0.02),
          p_cursorMousePos := (js_mul (vx mouse) (Fin 3), js_mul (vy mouse) (Fin 2), Fin 0),
          p_cursorTime := time,
          p_renders := Suc (p_renders p)\<rparr>))"

text \<open>The listeners of \<^verbatim>\<open>setupEvents\<close>.\<close>

definition portal_mousemove :: "window \<Rightarrow> jsnum \<Rightarrow> jsnum \<Rightarrow> PortalScene \<Rightarrow> PortalScene" where
  "portal_mousemove win x y p = p
     \<lparr>p_targetMouse :=
        \<lparr>vx = js_sub (js_mul (js_div x (innerWidth win)) (Fin 2)) (Fin 1),
         vy = js_add (js_mul (js_neg (js_div y (innerHeight win))) (Fin 2)) (Fin 1)\<rparr>\<rparr>"

definition portal_resize :: "window \<Rightarrow> PortalScene \<Rightarrow> PortalScene" where
  "portal_resize win p =
     (if p_isDestroyed p then p
      else p\<lparr>p_camAspect := js_div (innerWidth win) (innerHeight win),
             p_rendererSize := (innerWidth win, innerHeight win)\<rparr>)"

text \<open>
  The locals of \<^verbatim>\<open>transitionAnimate\<close>: \<^verbatim>\<open>progress\<close> from the clock reading and the captured
  \<^verbatim>\<open>startTime\<close> (the duration is the constant 0.7), and \<^verbatim>\<open>eased\<close> from \<^verbatim>\<open>progress\<close>.
\<close>

definition transition_progress :: "jsnum \<Rightarrow> jsnum \<Rightarrow> jsnum" where
  "transition_progress startTime time = js_min (js_div (js_sub time startTime) (Fin 0.7)) (Fin 1)"

definition ease_out_cubic :: "jsnum \<Rightarrow> jsnum" where
  "ease_out_cubic progress = js_sub (Fin 1) (js_pow (js_sub (Fin 1) progress) 3)"

definition ring_transition :: "jsnum \<Rightarrow> nat \<times> ring \<Rightarrow> ring" where
  "ring_transition eased = (\<lambda>(i, r). r
     \<lparr>rg_scale := js_add (Fin 1)
         (js_mul eased (js_add (Fin 2) (js_mul (Fin (real i)) (Fin 0.5)))),
      rg_opacity := js_mul (Fin 0.4) (js_sub (Fin 1) eased)\<rparr>)"

definition particle_rush :: "jsnum \<Rightarrow> vec3 \<Rightarrow> vec3" where
  "particle_rush eased = (\<lambda>(x, y, z).
     (js_mul x (js_sub (Fin 1) (js_mul eased (Fin 0.02))),
      js_mul y (js_sub (Fin 1) (js_mul eased (Fin 0.02))),
      js_mul z (js_sub (Fin 1) (js_mul eased (Fin 0.02)))))"

text \<open>
  The closure \<^verbatim>\<open>transitionAnimate\<close>: \<open>startTime\<close> and \<open>pid\<close> (the promise whose \<^verbatim>\<open>resolve\<close>
  it holds) are what it captured, \<open>time\<close> is the clock reading of this frame.
\<close>

definition transitionAnimate ::
  "jsnum \<Rightarrow> nat \<Rightarrow> jsnum \<Rightarrow> runtime \<times> PortalScene \<Rightarrow> runtime \<times> PortalScene" where
  "transitionAnimate startTime pid time = (\<lambda>(rt, p).
     if p_isDestroyed p then (resolve pid rt, p)
     else
       let progress = transition_progress startTime time;
           eased = ease_out_cubic progress;
           p' = p
             \<lparr>p_camZ := js_sub (Fin 5) (js_mul eased (Fin 5.5)),
              p_camFov := js_add (Fin 60) (js_mul eased (Fin 40)),
              p_glowIntensity := js_add (Fin 0.5) (js_mul eased (Fin 3)),
              p_coreIntensity := js_add (Fin 1) (js_mul eased (Fin 5)),
              p_rings := map (ring_transition eased) (enumerate 0 (p_rings p)),
              p_positions := map (particle_rush eased) (p_positions p),
              p_renders := Suc (p_renders p)\<rparr>
       in if js_lt progress (Fin 1)
          then (snd (requestAnimationFrame (TransitionAnimate startTime pid) rt), p')
          else (resolve pid rt, p'))"

text \<open>
  \<^verbatim>\<open>transitionOut\<close>; \<open>time\<close> is the clock reading its promise executor takes as
  \<^verbatim>\<open>startTime\<close>. The result says which promise the caller gets.
\<close>

definition transitionOut ::
  "jsnum \<Rightarrow> runtime \<times> PortalScene \<Rightarrow> promise \<times> runtime \<times> PortalScene" where
  "transitionOut time = (\<lambda>(rt, p).
     if p_isTransitioning p then (Fulfilled, rt, p)
     else
       let (pid, rt1) = new_promise rt;
           (h, rt2) = requestAnimationFrame (TransitionAnimate time pid) rt1
       in (Follows pid, rt2, p\<lparr>p_isTransitioning := True\<rparr>))"

definition portal_destroy :: "runtime \<times> PortalScene \<Rightarrow> runtime \<times> PortalScene" where
  "portal_destroy = (\<lambda>(rt, p).
     (cancelAnimationFrame (p_animationId p) rt,
      p\<lparr>p_isDestroyed := True,
        p_rendererDisposals := Suc (p_rendererDisposals p),
        p_graph := map dispose_obj (p_graph p)\<rparr>))"

text \<open>
  The constructor and \<^verbatim>\<open>init\<close>. The positions of the cosmic particles, drawn from
  \<^verbatim>\<open>Math.random()\<close>, are an argument (1200 in the program). The scene graph in the order of
  \<^verbatim>\<open>traverse\<close>: the scene, the globe, its core, the group of rings, each of the three rings
  followed by its twenty dots, the particles, the cursor particles, the ambient light.
\<close>

definition mk_ring :: "real \<Rightarrow> real \<Rightarrow> ring" where
  "mk_ring tilt speed =
     \<lparr>rg_rotY = Fin 0, rg_rotZ = Fin 0, rg_scale = Fin 1, rg_opacity = Fin 0.25,
      ud_speed = Fin speed, ud_baseTilt = Fin tilt\<rparr>"

definition portal_graph :: "gpu_obj list" where
  "portal_graph =
     [plain_obj, mesh_obj, mesh_obj, plain_obj] @
     concat (replicate 3 (mesh_obj # replicate 20 mesh_obj)) @
     [mesh_obj, mesh_obj, plain_obj]"

definition new_PortalScene :: "window \<Rightarrow> vec3 list \<Rightarrow> runtime \<Rightarrow> runtime \<times> PortalScene" where
  "new_PortalScene win positions rt =
     portal_animate (Fin 0) (rt,
       \<lparr>p_isDestroyed = False,
        p_isTransitioning = False,
        p_animationId = 0,
        p_mouse = \<lparr>vx = Fin 0, vy = Fin 0\<rparr>,
        p_targetMouse = \<lparr>vx = Fin 0, vy = Fin 0\<rparr>,
        p_camZ = Fin 5,
        p_camFov = Fin 60,
        p_camAspect = js_div (innerWidth win) (innerHeight win),
        p_globeRotX = Fin 0,
        p_globeRotY = Fin 0,
        p_coreRotX = Fin 0,
        p_coreRotY = Fin 0,
        p_globeTime = Fin 0,
        p_mouseInfluence = \<lparr>vx = Fin 0, vy = Fin 0\<rparr>,
        p_glowIntensity = Fin 0.5,
        p_coreTime = Fin 0,
        p_coreIntensity = Fin 1,
        p_particleTime = Fin 0,
        p_rings = [mk_ring 0.4 0.3, mk_ring (- 0.6) (- 0.2), mk_ring 0.2 0.15],
        p_particlesRotX = Fin 0,
        p_particlesRotY = Fin 0,
        p_positions = positions,
        p_cursorMousePos = (Fin 0, Fin 0, Fin 0),
        p_cursorTime = Fin 0,
        p_rendererSize = (innerWidth win, innerHeight win),
        p_renders = 0,
        p_rendererDisposals = 0,
        p_graph = portal_graph\<rparr>)"

section \<open>The orchestrator\<close>

text \<open>
  \<^verbatim>\<open>GallantExperience\<close> and what it runs in. The page says which elements
  \<^verbatim>\<open>document.getElementById\<close> finds where the program tests the result, and holds what the
  two scene constructors draw from \<^verbatim>\<open>Math.random()\<close>. The other elements the program
  looks up (containers, flash, scroll content) are asserted non-null by the program.
\<close>

record page =
  page_portalCanvas :: bool
  page_enterBtn :: bool
  page_worldCanvas :: bool
  page_portalPositions :: "vec3 list"
  page_worldSeeds :: "float_seed list"

datatype phase = Portal | World

text \<open>The calls on collaborators (audio, DOM, animation library) and on the two scene
  controllers, in the order the orchestrator makes them.\<close>

datatype action =
    PlayHoverBlip
  | PlayTransitionWhoosh
  | AudioStart
  | AudioStop
  | FadePortalUI
  | CallTransitionOut
  | FlashOn
  | ShowWorldContainer
  | ConstructWorldScene
  | HidePortalContainer
  | CallPortalDestroy
  | FlashOff
  | RevealWorld

text \<open>The points where \<^verbatim>\<open>enterWorld\<close> is suspended: each names the code that runs when
  the awaited promise settles.\<close>

datatype continuation = AfterTransitionOut | AfterFlashPeak | AfterWorldStart | AfterFlashHold

text \<open>
  The fields of the object (\<open>portalRef\<close>: \<^verbatim>\<open>this.portal\<close> is not null; \<open>worldRef\<close>:
  \<^verbatim>\<open>this.world\<close>), the scene objects that exist (listeners and frame callbacks keep
  them alive whatever the fields say), the runtime, the window, the suspended
  activations of \<^verbatim>\<open>enterWorld\<close> (on a promise of \<^verbatim>\<open>transitionOut\<close>, or on a timer with its
  handle and delay in milliseconds), the listeners registered, and the calls made. Timers
  that only touch the page (the loading overlay, the reveals of \<^verbatim>\<open>revealWorld\<close>, the
  contact form, the audio fade) are not kept.
\<close>

record GallantExperience =
  currentPhase :: phase
  portalRef :: bool
  worldRef :: "nat option"
  portalHeap :: "PortalScene option"
  worldHeap :: "WorldScene list"
  browser :: runtime
  win :: window
  awaiting :: "(nat \<times> continuation) list"
  timers :: "(nat \<times> nat \<times> continuation) list"
  timerNext :: nat
  enterListener :: bool
  scrollListeners :: nat
  actions :: "action list"

definition call :: "action list \<Rightarrow> GallantExperience \<Rightarrow> GallantExperience" where
  "call as s = s\<lparr>actions := actions s @ as\<rparr>"

definition setTimeout :: "nat \<Rightarrow> continuation \<Rightarrow> GallantExperience \<Rightarrow> GallantExperience" where
  "setTimeout ms k s =
     s\<lparr>timers := timers s @ [(timerNext s, ms, k)], timerNext := Suc (timerNext s)\<rparr>"

text \<open>The constructor: \<^verbatim>\<open>initPortal\<close> builds the portal scene when its canvas exists and
  then registers the click listener when the button exists.\<close>

definition new_GallantExperience :: "page \<Rightarrow> window \<Rightarrow> GallantExperience" where
  "new_GallantExperience pg w =
     (let rt0 = \<lparr>rafQueue = [], rafNext = 1, promises = []\<rparr>;
          s0 = \<lparr>currentPhase = Portal, portalRef = False, worldRef = None,
                portalHeap = None, worldHeap = [], browser = rt0, win = w,
                awaiting = [], timers = [], timerNext = 1,
                enterListener = False, scrollListeners = 0, actions = []\<rparr>
      in if \<not> page_portalCanvas pg then s0
         else
           let (rt1, p) = new_PortalScene w (page_portalPositions pg) rt0
           in s0\<lparr>portalRef := True, portalHeap := Some p, browser := rt1,
                 enterListener := page_enterBtn pg\<rparr>)"

text \<open>\<^verbatim>\<open>initWorld\<close>: the scene, then the scroll listener (the navigation, hover, tilt and
  form listeners that follow touch neither scene).\<close>

definition initWorld :: "page \<Rightarrow> GallantExperience \<Rightarrow> GallantExperience" where
  "initWorld pg s =
     (if \<not> page_worldCanvas pg then s
      else
        let self = length (worldHeap s);
            (rt', w) = new_WorldScene self (win s) (page_worldSeeds pg) (browser s)
        in call [ConstructWorldScene]
             (s\<lparr>browser := rt', worldHeap := worldHeap s @ [w], worldRef := Some self,
                scrollListeners := Suc (scrollListeners s)\<rparr>))"

text \<open>The four stretches of \<^verbatim>\<open>enterWorld\<close> after its first \<^verbatim>\<open>await\<close>.\<close>

definition after_transitionOut :: "GallantExperience \<Rightarrow> GallantExperience" where
  "after_transitionOut s = setTimeout 150 AfterFlashPeak (call [FlashOn] s)"

definition after_flashPeak :: "page \<Rightarrow> GallantExperience \<Rightarrow> GallantExperience" where
  "after_flashPeak pg s =
     setTimeout 50 AfterWorldStart (initWorld pg (call [ShowWorldContainer] s))"

definition after_worldStart :: "GallantExperience \<Rightarrow> GallantExperience" where
  "after_worldStart s =
     (let s1 = call [HidePortalContainer] s;
          s2 = (if portalRef s1
                then (case portalHeap s1 of
                        Some p \<Rightarrow>
                          let (rt', p') = portal_destroy (browser s1, p)
                          in (call [CallPortalDestroy] s1)
                               \<lparr>browser := rt', portalHeap := Some p', portalRef := False\<rparr>
                      | None \<Rightarrow> s1\<lparr>portalRef := False\<rparr>)
                else s1)
      in setTimeout 400 AfterFlashHold s2)"

definition after_flashHold :: "GallantExperience \<Rightarrow> GallantExperience" where
  "after_flashHold s = call [FlashOff, AudioStop, RevealWorld] s"

definition resume :: "page \<Rightarrow> continuation \<Rightarrow> GallantExperience \<Rightarrow> GallantExperience" where
  "resume pg k s =
     (case k of
        AfterTransitionOut \<Rightarrow> after_transitionOut s
      | AfterFlashPeak \<Rightarrow> after_flashPeak pg s
      | AfterWorldStart \<Rightarrow> after_worldStart s
      | AfterFlashHold \<Rightarrow> after_flashHold s)"

text \<open>
  \<^verbatim>\<open>enterWorld\<close> up to its first \<^verbatim>\<open>await\<close>; \<open>time\<close> is the reading of the portal's clock
  that \<^verbatim>\<open>transitionOut\<close> takes. Awaiting a promise that is already fulfilled resumes as
  soon as the handler has returned.
\<close>

definition enterWorld :: "page \<Rightarrow> jsnum \<Rightarrow> GallantExperience \<Rightarrow> GallantExperience" where
  "enterWorld pg time s =
     (if currentPhase s \<noteq> Portal then s
      else
        let s1 = call [PlayTransitionWhoosh, AudioStart, FadePortalUI]
                   (s\<lparr>currentPhase := World\<rparr>)
        in if portalRef s1
           then (case portalHeap s1 of
                   Some p \<Rightarrow>
                     let (pr, rt', p') = transitionOut time (browser s1, p);
                         s2 = (call [CallTransitionOut] s1)\<lparr>browser := rt', portalHeap := Some p'\<rparr>
                     in (case pr of
                           Fulfilled \<Rightarrow> after_transitionOut s2
                         | Follows pid \<Rightarrow> s2\<lparr>awaiting := awaiting s2 @ [(pid, AfterTransitionOut)]\<rparr>)
                 | None \<Rightarrow> after_transitionOut s1)
           else after_transitionOut s1)"

text \<open>After a callback, the activations whose promise has been resolved resume, in the
  order they were suspended.\<close>

definition settled :: "GallantExperience \<Rightarrow> nat \<times> continuation \<Rightarrow> bool" where
  "settled s = (\<lambda>(pid, k). 0 < resolve_calls (browser s) pid)"

definition run_microtasks :: "page \<Rightarrow> GallantExperience \<Rightarrow> GallantExperience" where
  "run_microtasks pg s =
     foldl (\<lambda>s' (pid, k). resume pg k s')
       (s\<lparr>awaiting := filter (\<lambda>a. \<not> settled s a) (awaiting s)\<rparr>)
       (filter (settled s) (awaiting s))"

text \<open>One frame callback; \<open>tp\<close> and \<open>tw\<close> are the readings of the portal's clock and of
  the world scenes' clock in this frame.\<close>

definition run_callback ::
  "page \<Rightarrow> jsnum \<Rightarrow> jsnum \<Rightarrow> callback \<Rightarrow> GallantExperience \<Rightarrow> GallantExperience" where
  "run_callback pg tp tw cb s =
     (case cb of
        PortalAnimate \<Rightarrow>
          (case portalHeap s of
             Some p \<Rightarrow>
               let (rt', p') = portal_animate tp (browser s, p)
               in s\<lparr>browser := rt', portalHeap := Some p'\<rparr>
           | None \<Rightarrow> s)
      | TransitionAnimate startTime pid \<Rightarrow>
          (case portalHeap s of
             Some p \<Rightarrow>
               let (rt', p') = transitionAnimate startTime pid tp (browser s, p)
               in run_microtasks pg (s\<lparr>browser := rt', portalHeap := Some p'\<rparr>)
           | None \<Rightarrow> s)
      | WorldAnimate i \<Rightarrow>
          (if i < length (worldHeap s)
           then let (rt', w') = world_animate i tw (browser s, worldHeap s ! i)
                in s\<lparr>browser := rt', worldHeap := (worldHeap s)[i := w']\<rparr>
           else s))"

text \<open>A frame runs the callbacks requested so far, in the order of the requests; what they
  request is for the next frame.\<close>

definition run_frame :: "page \<Rightarrow> jsnum \<Rightarrow> jsnum \<Rightarrow> GallantExperience \<Rightarrow> GallantExperience" where
  "run_frame pg tp tw s =
     foldl (\<lambda>s' (h, cb). run_callback pg tp tw cb s')
       (s\<lparr>browser := (browser s)\<lparr>rafQueue := []\<rparr>\<rparr>)
       (rafQueue (browser s))"

definition fire_timer :: "page \<Rightarrow> nat \<Rightarrow> GallantExperience \<Rightarrow> GallantExperience" where
  "fire_timer pg h s =
     (case filter (\<lambda>(h', ms, k). h' = h) (timers s) of
        [] \<Rightarrow> s
      | (h', ms, k) # _ \<Rightarrow>
          resume pg k (s\<lparr>timers := filter (\<lambda>(h', ms, k). h' \<noteq> h) (timers s)\<rparr>))"

text \<open>The scroll listener of \<^verbatim>\<open>initWorld\<close>: the three values it reads from the scroll
  container, the quotient, and the call on the world scene.\<close>

definition scroll_progress :: "jsnum \<Rightarrow> jsnum \<Rightarrow> jsnum \<Rightarrow> jsnum" where
  "scroll_progress scrollTop scrollHeight clientHeight =
     js_div scrollTop (js_sub scrollHeight clientHeight)"

definition on_scroll :: "jsnum \<Rightarrow> jsnum \<Rightarrow> jsnum \<Rightarrow> GallantExperience \<Rightarrow> GallantExperience" where
  "on_scroll scrollTop scrollHeight clientHeight s =
     (let progress = scroll_progress scrollTop scrollHeight clientHeight
      in case worldRef s of
           Some i \<Rightarrow>
             (if i < length (worldHeap s)
              then s\<lparr>worldHeap := (worldHeap s)[i := updateScroll progress (worldHeap s ! i)]\<rparr>
              else s)
         | None \<Rightarrow> s)"

text \<open>What the page can do to the program.\<close>

datatype event =
    ClickEnter jsnum
  | HoverEnter
  | Frame jsnum jsnum
  | TimerFires nat
  | Scroll jsnum jsnum jsnum
  | Resize window
  | MouseMove jsnum jsnum
  | TouchMove jsnum jsnum

definition step :: "page \<Rightarrow> event \<Rightarrow> GallantExperience \<Rightarrow> GallantExperience" where
  "step pg ev s =
     (case ev of
        ClickEnter time \<Rightarrow> (if enterListener s then enterWorld pg time s else s)
      | HoverEnter \<Rightarrow> (if enterListener s then call [PlayHoverBlip] s else s)
      | Frame tp tw \<Rightarrow> run_frame pg tp tw s
      | TimerFires h \<Rightarrow> fire_timer pg h s
      | Scroll scrollTop scrollHeight clientHeight \<Rightarrow>
          ((on_scroll scrollTop scrollHeight clientHeight) ^^ scrollListeners s) s
      | Resize w \<Rightarrow>
          s\<lparr>win := w,
            portalHeap := map_option (portal_resize w) (portalHeap s),
            worldHeap := map (world_resize w) (worldHeap s)\<rparr>
      | MouseMove x y \<Rightarrow>
          s\<lparr>portalHeap := map_option (portal_mousemove (win s) x y) (portalHeap s),
            worldHeap := map (world_handleMove (win s) x y) (worldHeap s)\<rparr>
      | TouchMove x y \<Rightarrow>
          s\<lparr>worldHeap := map (world_handleMove (win s) x y) (worldHeap s)\<rparr>)"

definition run :: "page \<Rightarrow> event list \<Rightarrow> GallantExperience \<Rightarrow> GallantExperience" where
  "run pg evs s = foldl (\<lambda>s' ev. step pg ev s') s evs"

section \<open>The portal scene driven on its own\<close>

text \<open>
  What can happen to a portal scene once it is built: a frame (with the clock reading of
  that frame), a call of \<^verbatim>\<open>transitionOut\<close> or of \<^verbatim>\<open>destroy\<close>, a mouse move, a resize. A frame
  runs the callbacks requested so far, in the order of the requests.
\<close>

datatype portal_op =
    OpFrame jsnum
  | OpTransitionOut jsnum
  | OpDestroy
  | OpMouseMove window jsnum jsnum
  | OpResize window

definition portal_callback ::
  "jsnum \<Rightarrow> callback \<Rightarrow> runtime \<times> PortalScene \<Rightarrow> runtime \<times> PortalScene" where
  "portal_callback time cb st =
     (case cb of
        PortalAnimate \<Rightarrow> portal_animate time st
      | TransitionAnimate startTime pid \<Rightarrow> transitionAnimate startTime pid time st
      | WorldAnimate i \<Rightarrow> st)"

definition portal_frame :: "jsnum \<Rightarrow> runtime \<times> PortalScene \<Rightarrow> runtime \<times> PortalScene" where
  "portal_frame time = (\<lambda>(rt, p).
     foldl (\<lambda>st (h, cb). portal_callback time cb st) (rt\<lparr>rafQueue := []\<rparr>, p) (rafQueue rt))"

definition portal_op_step :: "portal_op \<Rightarrow> runtime \<times> PortalScene \<Rightarrow> runtime \<times> PortalScene" where
  "portal_op_step op st =
     (case op of
        OpFrame time \<Rightarrow> portal_frame time st
      | OpTransitionOut time \<Rightarrow> snd (transitionOut time st)
      | OpDestroy \<Rightarrow> portal_destroy st
      | OpMouseMove w x y \<Rightarrow> (fst st, portal_mousemove w x y (snd st))
      | OpResize w \<Rightarrow> (fst st, portal_resize w (snd st)))"

definition portal_run :: "portal_op list \<Rightarrow> runtime \<times> PortalScene \<Rightarrow> runtime \<times> PortalScene" where
  "portal_run ops st = foldl (\<lambda>st' op. portal_op_step op st') st ops"

section \<open>The frame queue of the portal\<close>

text \<open>
  What holds of the runtime and the portal whatever happens to them: every handle handed
  out is below the next one, and so is \<^verbatim>\<open>animationId\<close> (\<open>handles_fresh\<close>). Before
  \<^verbatim>\<open>transitionOut\<close> no \<^verbatim>\<open>transitionAnimate\<close> closure is queued (\<open>idle_inv\<close>). After it, the
  queued closures are those of that one call, none has the handle \<^verbatim>\<open>animationId\<close>, and
  either one of them is queued or \<^verbatim>\<open>resolve\<close> has been called once (\<open>transition_inv\<close>).
\<close>

definition is_transition :: "callback \<Rightarrow> bool" where
  "is_transition cb = (case cb of TransitionAnimate startTime pid \<Rightarrow> True | _ \<Rightarrow> False)"

definition transitions :: "(nat \<times> callback) list \<Rightarrow> (nat \<times> callback) list" where
  "transitions q = filter (\<lambda>(h, cb). is_transition cb) q"

definition handles_fresh :: "runtime \<times> PortalScene \<Rightarrow> bool" where
  "handles_fresh = (\<lambda>(rt, p).
     p_animationId p < rafNext rt \<and> (\<forall>h \<in> set (map fst (rafQueue rt)). h < rafNext rt))"

definition idle_inv :: "runtime \<times> PortalScene \<Rightarrow> bool" where
  "idle_inv = (\<lambda>(rt, p).
     handles_fresh (rt, p) \<and> (\<not> p_isTransitioning p \<longrightarrow> transitions (rafQueue rt) = []))"

definition transition_inv :: "jsnum \<Rightarrow> nat \<Rightarrow> runtime \<times> PortalScene \<Rightarrow> bool" where
  "transition_inv startTime pid = (\<lambda>(rt, p).
     handles_fresh (rt, p) \<and> p_isTransitioning p \<and> pid < length (promises rt)
     \<and> (\<forall>x \<in> set (transitions (rafQueue rt)).
           snd x = TransitionAnimate startTime pid \<and> fst x \<noteq> p_animationId p)
     \<and> length (transitions (rafQueue rt)) + resolve_calls rt pid = 1)"

text \<open>In the middle of a frame: the callbacks the frame has still to run, put back in front
  of what has been requested since.\<close>

definition unrun :: "(nat \<times> callback) list \<Rightarrow> runtime \<times> PortalScene \<Rightarrow> runtime \<times> PortalScene" where
  "unrun xs = (\<lambda>(rt, p). (rt\<lparr>rafQueue := xs @ rafQueue rt\<rparr>, p))"

section \<open>The stages of \<^verbatim>\<open>enterWorld\<close>\<close>

text \<open>
  Where an activation of \<^verbatim>\<open>enterWorld\<close> can stand, read off the state: before any world
  scene exists and before the portal is destroyed (\<open>pre_world\<close>), once \<^verbatim>\<open>initWorld\<close> has run
  (\<open>world_built\<close>), once the portal has been torn down (\<open>portal_gone\<close>); \<open>enter_inv\<close> lists
  the six stages with what is suspended in each. What teardown leaves on the portal object
  is read from the object: its flag, the number of \<^verbatim>\<open>renderer.dispose()\<close> calls and its scene
  graph (\<open>portal_teardown\<close>); \<open>portal_live\<close> says no \<^verbatim>\<open>destroy\<close> has reached it yet.
\<close>

definition portal_teardown :: "PortalScene \<Rightarrow> bool \<times> nat \<times> gpu_obj list" where
  "portal_teardown p = (p_isDestroyed p, p_rendererDisposals p, p_graph p)"

definition portal_live :: "page \<Rightarrow> GallantExperience \<Rightarrow> bool" where
  "portal_live pg s \<longleftrightarrow>
     map_option portal_teardown (portalHeap s)
       = (if page_portalCanvas pg then Some (False, 0, portal_graph) else None)"

definition pre_world :: "page \<Rightarrow> GallantExperience \<Rightarrow> bool" where
  "pre_world pg s \<longleftrightarrow>
     portalRef s = page_portalCanvas pg \<and> worldHeap s = []
     \<and> portal_live pg s
     \<and> count_list (actions s) CallPortalDestroy = 0
     \<and> count_list (actions s) ConstructWorldScene = 0
     \<and> RevealWorld \<notin> set (actions s)"

definition world_built :: "page \<Rightarrow> GallantExperience \<Rightarrow> bool" where
  "world_built pg s \<longleftrightarrow>
     length (worldHeap s) = (if page_worldCanvas pg then 1 else 0)
     \<and> count_list (actions s) ConstructWorldScene = (if page_worldCanvas pg then 1 else 0)"

definition portal_gone :: "page \<Rightarrow> GallantExperience \<Rightarrow> bool" where
  "portal_gone pg s \<longleftrightarrow>
     \<not> portalRef s
     \<and> map_option portal_teardown (portalHeap s)
         = (if page_portalCanvas pg then Some (True, 1, map dispose_obj portal_graph) else None)
     \<and> count_list (actions s) CallPortalDestroy = (if page_portalCanvas pg then 1 else 0)"

definition enter_inv :: "page \<Rightarrow> GallantExperience \<Rightarrow> bool" where
  "enter_inv pg s \<longleftrightarrow>
     (portalHeap s \<noteq> None \<longleftrightarrow> page_portalCanvas pg) \<and>
     ( (currentPhase s = Portal \<and> awaiting s = [] \<and> timers s = [] \<and> pre_world pg s)
     \<or> (currentPhase s = World \<and> (\<exists>pid. awaiting s = [(pid, AfterTransitionOut)])
          \<and> timers s = [] \<and> pre_world pg s)
     \<or> (currentPhase s = World \<and> awaiting s = []
          \<and> (\<exists>h ms. timers s = [(h, ms, AfterFlashPeak)]) \<and> pre_world pg s)
     \<or> (currentPhase s = World \<and> awaiting s = []
          \<and> (\<exists>h ms. timers s = [(h, ms, AfterWorldStart)]) \<and> world_built pg s
          \<and> portalRef s = page_portalCanvas pg \<and> portal_live pg s
          \<and> count_list (actions s) CallPortalDestroy = 0
          \<and> RevealWorld \<notin> set (actions s))
     \<or> (currentPhase s = World \<and> awaiting s = []
          \<and> (\<exists>h ms. timers s = [(h, ms, AfterFlashHold)]) \<and> world_built pg s
          \<and> portal_gone pg s \<and> RevealWorld \<notin> set (actions s))
     \<or> (currentPhase s = World \<and> awaiting s = [] \<and> timers s = [] \<and> world_built pg s
          \<and> portal_gone pg s))"

text \<open>What \<open>enter_inv\<close> reads of a state, and what the scenarios below observe of one.\<close>

definition view ::
  "GallantExperience \<Rightarrow> phase \<times> (nat \<times> continuation) list \<times> (nat \<times> nat \<times> continuation) list
     \<times> bool \<times> nat \<times> action list \<times> (bool \<times> nat \<times> gpu_obj list) option" where
  "view s = (currentPhase s, awaiting s, timers s, portalRef s, length (worldHeap s),
             actions s, map_option portal_teardown (portalHeap s))"

definition observed ::
  "GallantExperience \<Rightarrow> phase \<times> action list \<times> nat \<times> nat option \<times> nat" where
  "observed s = (currentPhase s, actions s, length (worldHeap s), worldRef s, scrollListeners s)"

section \<open>Concrete scenes\<close>

text \<open>A 1920 by 1080 window, the runtime before any request, and the two scenes as their
  constructors leave them (with one particle and one floating mesh).\<close>

definition demo_window :: window where
  "demo_window = \<lparr>innerWidth = Fin 1920, innerHeight = Fin 1080, devicePixelRatio = Fin 1\<rparr>"

definition fresh_runtime :: runtime where
  "fresh_runtime = \<lparr>rafQueue = [], rafNext = 1, promises = []\<rparr>"

definition demo_world :: WorldScene where
  "demo_world =
     snd (new_WorldScene 0 demo_window [(Fin 1, Fin 2, Fin 0.5, Fin 1, Fin 0, Fin 0.4)]
            fresh_runtime)"

definition demo_portal_state :: "runtime \<times> PortalScene" where
  "demo_portal_state = new_PortalScene demo_window [(Fin 10, Fin 0, Fin (- 5))] fresh_runtime"

definition demo_portal :: PortalScene where
  "demo_portal = snd demo_portal_state"

text \<open>The portal a fifth of a second into its transition, begun at clock reading 2.\<close>

definition demo_pending :: "runtime \<times> PortalScene" where
  "demo_pending = portal_run [OpFrame (Fin 2.2)] (snd (transitionOut (Fin 2) demo_portal_state))"

text \<open>A page with both canvases and the button, and a visit: two clicks on the button in a
  row, the frames of the transition, and the three timers of \<^verbatim>\<open>enterWorld\<close>.\<close>

definition demo_page :: page where
  "demo_page =
     \<lparr>page_portalCanvas = True, page_enterBtn = True, page_worldCanvas = True,
      page_portalPositions = [(Fin 10, Fin 0, Fin (- 5))],
      page_worldSeeds = [(Fin 1, Fin 2, Fin 0.5, Fin 1, Fin 0, Fin 0.4)]\<rparr>"

definition demo_visit :: "event list" where
  "demo_visit =
     [ClickEnter (Fin 2), ClickEnter (Fin 2.1),
      Frame (Fin 2.2) (Fin 0), Frame (Fin 2.8) (Fin 0),
      TimerFires 1, Frame (Fin 2.9) (Fin 0.1), TimerFires 2, TimerFires 3]"

definition demo_experience :: GallantExperience where
  "demo_experience = run demo_page demo_visit (new_GallantExperience demo_page demo_window)"

section \<open>Facts about the concrete scenes\<close>

lemma demo_world_fields:
  "\<not> w_isDestroyed demo_world" "w_scrollProgress demo_world = Fin 0"
  "w_camY demo_world = Fin 2" "w_camZ demo_world = Fin 10"
  "w_mouse demo_world = \<lparr>vx = Fin 0, vy = Fin 0\<rparr>"
  "w_targetMouse demo_world = \<lparr>vx = Fin 0, vy = Fin 0\<rparr>"
  by (simp_all add: demo_world_def new_WorldScene_def world_animate_def
        requestAnimationFrame_def Let_def js_sub_def vec2_lerp_def lerp1_def)

lemma demo_portal_fields:
  "\<not> p_isDestroyed demo_portal" "\<not> p_isTransitioning demo_portal"
  "p_mouse demo_portal = \<lparr>vx = Fin 0, vy = Fin 0\<rparr>"
  "p_targetMouse demo_portal = \<lparr>vx = Fin 0, vy = Fin 0\<rparr>"
  by (simp_all add: demo_portal_def demo_portal_state_def new_PortalScene_def
        portal_animate_def requestAnimationFrame_def Let_def js_sub_def vec2_lerp_def lerp1_def)

section \<open>The grid floor\<close>

lemma js_trunc_small: "\<bar>x\<bar> < 1 \<Longrightarrow> js_trunc x = 0"
  unfolding js_trunc_def by (auto simp: floor_eq_iff ceiling_eq_iff)

lemma js_trunc_nonpos: "x \<le> 0 \<Longrightarrow> js_trunc x = \<lceil>x\<rceil>"
  unfolding js_trunc_def by (cases "x = 0") auto

lemma js_trunc_shift:
  assumes "a \<le> 0"
  shows "js_trunc ((a - 4) / 4) = js_trunc (a / 4) - 1"
proof -
  have e: "(a - 4) / 4 = a / 4 - 1" by (simp add: field_simps)
  have "js_trunc (a / 4 - 1) = \<lceil>a / 4 - 1\<rceil>" using assms by (intro js_trunc_nonpos) simp
  also have "\<dots> = \<lceil>a / 4\<rceil> - 1" by simp
  also have "\<lceil>a / 4\<rceil> = js_trunc (a / 4)" using assms by (simp add: js_trunc_nonpos)
  finally show ?thesis unfolding e .
qed

lemma grid_offset_shift8:
  assumes "0 \<le> t"
  shows "grid_offset (Fin (t + 8)) = grid_offset (Fin t)"
proof -
  have e: "- ((t + 8) * 0.5) = (- (t * 0.5)) - 4" by (simp add: algebra_simps)
  have le: "- (t * 0.5) \<le> 0" using assms by simp
  show ?thesis
    unfolding grid_offset_def
    apply (simp only: js_mul.simps js_neg.simps e js_rem.simps js_trunc_shift[OF le])
    apply (simp add: algebra_simps)
    done
qed

text \<open>
  C2, as stated: the grid offset at elapsed time \<open>t + 4\<close> equals the offset at \<open>t\<close>, for
  every \<open>t \<ge> 0\<close>. It fails at \<open>t = 0\<close>: the offset is 0 there and \<open>-2\<close> four seconds later.
\<close>

theorem grid_offset_period_4_counterexample:
  "grid_offset (js_add (Fin 0) (Fin 4)) = Fin (- 2) \<and> grid_offset (Fin 0) = Fin 0
   \<and> grid_offset (js_add (Fin 0) (Fin 4)) \<noteq> grid_offset (Fin 0)"
  by (simp add: grid_offset_def js_trunc_small)

text \<open>
  C2, amended: time enters the offset halved, so the offset is periodic with period 8 in
  the elapsed time: for every \<open>t \<ge> 0\<close> the offset at \<open>t + 8\<close> equals the offset at \<open>t\<close>, and
  so does the grid position a live frame callback writes.
\<close>

theorem grid_offset_period_8:
  assumes "0 \<le> t"
  shows "grid_offset (js_add (Fin t) (Fin 8)) = grid_offset (Fin t) \<and>
         (\<not> w_isDestroyed w \<longrightarrow>
            w_gridZ (snd (world_animate self (js_add (Fin t) (Fin 8)) (rt, w))) =
            w_gridZ (snd (world_animate self (Fin t) (rt, w))))"
  using grid_offset_shift8[OF assms]
  by (simp add: world_animate_def requestAnimationFrame_def Let_def)

theorem grid_offset_period_8_witness:
  "(0::real) \<le> 3 \<and> \<not> w_isDestroyed demo_world
   \<and> grid_offset (js_add (Fin 3) (Fin 8)) = grid_offset (Fin 3)
   \<and> w_gridZ (snd (world_animate 0 (js_add (Fin 3) (Fin 8)) (fresh_runtime, demo_world))) =
     w_gridZ (snd (world_animate 0 (Fin 3) (fresh_runtime, demo_world)))"
  using grid_offset_period_8[of 3 demo_world 0 fresh_runtime]
  by (simp add: demo_world_fields)

section \<open>Pointer smoothing\<close>

lemma lerp1_nonexpansive:
  assumes "0 < f" "f < 1"
  shows "\<exists>c'. lerp1 (Fin c) (Fin t) (Fin f) = Fin c' \<and> \<bar>c' - t\<bar> \<le> \<bar>c - t\<bar>"
proof -
  have "c + (t - c) * f - t = (c - t) * (1 - f)" by (simp add: algebra_simps)
  then have "\<bar>c + (t - c) * f - t\<bar> = \<bar>c - t\<bar> * (1 - f)" using assms by (simp add: abs_mult)
  also have "\<dots> \<le> \<bar>c - t\<bar>" using assms by (simp add: mult_left_le)
  finally show ?thesis by (simp add: lerp1_def js_sub_def)
qed

text \<open>
  C9: a smoothing step with a factor strictly between 0 and 1 never takes a finite pointer
  coordinate further from its finite target, in either coordinate; the live frame
  callbacks of the portal and of the world scene make exactly this step on their pointer,
  with the factors 0.05 and 0.03.
\<close>

theorem pointer_smoothing_never_moves_away:
  assumes "0 < f" "f < 1"
  shows "(\<exists>x' y'. vec2_lerp \<lparr>vx = Fin x, vy = Fin y\<rparr> \<lparr>vx = Fin tx, vy = Fin ty\<rparr> (Fin f)
                     = \<lparr>vx = Fin x', vy = Fin y'\<rparr>
                   \<and> \<bar>x' - tx\<bar> \<le> \<bar>x - tx\<bar> \<and> \<bar>y' - ty\<bar> \<le> \<bar>y - ty\<bar>)
       \<and> (\<not> p_isDestroyed p \<longrightarrow>
            p_mouse (snd (portal_animate time (rt, p))) =
            vec2_lerp (p_mouse p) (p_targetMouse p) (Fin 0.05))
       \<and> (\<not> w_isDestroyed w \<longrightarrow>
            w_mouse (snd (world_animate self time (rt, w))) =
            vec2_lerp (w_mouse w) (w_targetMouse w) (Fin 0.03))"
proof -
  obtain x' where x: "lerp1 (Fin x) (Fin tx) (Fin f) = Fin x'" "\<bar>x' - tx\<bar> \<le> \<bar>x - tx\<bar>"
    using lerp1_nonexpansive[OF assms] by blast
  obtain y' where y: "lerp1 (Fin y) (Fin ty) (Fin f) = Fin y'" "\<bar>y' - ty\<bar> \<le> \<bar>y - ty\<bar>"
    using lerp1_nonexpansive[OF assms] by blast
  have a: "\<exists>x' y'. vec2_lerp \<lparr>vx = Fin x, vy = Fin y\<rparr> \<lparr>vx = Fin tx, vy = Fin ty\<rparr> (Fin f)
                     = \<lparr>vx = Fin x', vy = Fin y'\<rparr>
                   \<and> \<bar>x' - tx\<bar> \<le> \<bar>x - tx\<bar> \<and> \<bar>y' - ty\<bar> \<le> \<bar>y - ty\<bar>"
    using x y by (simp add: vec2_lerp_def)
  have b: "\<not> p_isDestroyed p \<longrightarrow>
            p_mouse (snd (portal_animate time (rt, p))) =
            vec2_lerp (p_mouse p) (p_targetMouse p) (Fin 0.05)"
    by (simp add: portal_animate_def requestAnimationFrame_def Let_def)
  have c: "\<not> w_isDestroyed w \<longrightarrow>
            w_mouse (snd (world_animate self time (rt, w))) =
            vec2_lerp (w_mouse w) (w_targetMouse w) (Fin 0.03)"
    by (simp add: world_animate_def requestAnimationFrame_def Let_def)
  from a b c show ?thesis by blast
qed

theorem pointer_smoothing_never_moves_away_witness:
  "(0::real) < 0.05 \<and> (0.05::real) < 1
   \<and> \<not> p_isDestroyed demo_portal \<and> \<not> w_isDestroyed demo_world
   \<and> vec2_lerp \<lparr>vx = Fin 0, vy = Fin 0\<rparr> \<lparr>vx = Fin 1, vy = Fin (- 1)\<rparr> (Fin 0.05)
       = \<lparr>vx = Fin 0.05, vy = Fin (- 0.05)\<rparr>
   \<and> p_mouse (snd (portal_animate (Fin 1) (fresh_runtime, demo_portal))) = \<lparr>vx = Fin 0, vy = Fin 0\<rparr>
   \<and> w_mouse (snd (world_animate 0 (Fin 1) (fresh_runtime, demo_world))) = \<lparr>vx = Fin 0, vy = Fin 0\<rparr>"
  using pointer_smoothing_never_moves_away
          [of "0.05" 0 0 1 "- 1" demo_portal "Fin 1" fresh_runtime demo_world 0]
  by (simp add: demo_world_fields demo_portal_fields vec2_lerp_def lerp1_def js_sub_def)

section \<open>The camera of the world scene\<close>

text \<open>
  C8: in a live frame of the world scene whose camera height and depth are finite, the
  camera moves by 0.05 of the remaining distance toward \<open>2 - 3 p\<close> in \<open>y\<close> and toward
  \<open>10 - 5 p\<close> in \<open>z\<close>, \<open>p\<close> being the finite scroll progress; after \<^verbatim>\<open>updateScroll(0.5)\<close> one
  frame moves the height by 0.05 of the distance to 0.5.
\<close>

theorem world_camera_eases_to_scroll_target:
  assumes "\<not> w_isDestroyed w" and "w_camY w = Fin y" and "w_camZ w = Fin z"
  shows "(w_scrollProgress w = Fin p \<longrightarrow>
            w_camY (snd (world_animate self time (rt, w))) = Fin (y + ((2 - 3 * p) - y) * 0.05)
          \<and> w_camZ (snd (world_animate self time (rt, w))) = Fin (z + ((10 - 5 * p) - z) * 0.05))
       \<and> w_camY (snd (world_animate self time (rt, updateScroll (Fin 0.5) w)))
           = Fin (y + (0.5 - y) * 0.05)"
  using assms
  by (simp add: world_animate_def requestAnimationFrame_def Let_def js_sub_def
        updateScroll_def algebra_simps)

theorem world_camera_eases_to_scroll_target_witness:
  "\<not> w_isDestroyed demo_world \<and> w_camY demo_world = Fin 2 \<and> w_camZ demo_world = Fin 10
   \<and> w_scrollProgress demo_world = Fin 0
   \<and> w_camY (snd (world_animate 0 (Fin 0) (fresh_runtime, demo_world))) = Fin 2
   \<and> w_camZ (snd (world_animate 0 (Fin 0) (fresh_runtime, demo_world))) = Fin 10
   \<and> w_camY (snd (world_animate 0 (Fin 0) (fresh_runtime, updateScroll (Fin 0.5) demo_world)))
       = Fin 1.925"
  using world_camera_eases_to_scroll_target[of demo_world 2 10 0 0 "Fin 0" fresh_runtime]
  by (simp add: demo_world_fields)

section \<open>The end of the portal transition\<close>

lemma transition_progress_done:
  "0.7 \<le> t - t0 \<Longrightarrow> transition_progress (Fin t0) (Fin t) = Fin 1"
  by (simp add: transition_progress_def js_sub_def min_def)

text \<open>
  C7: in a frame of the transition of a live portal at least 0.7 seconds after its start,
  the progress is 1, the eased value is 1, the field of view becomes 100 and the camera
  depth \<open>-0.5\<close>, and the frame resolves the promise.
\<close>

theorem transition_complete_camera:
  assumes "\<not> p_isDestroyed p" and "0.7 \<le> t - t0"
  shows "transition_progress (Fin t0) (Fin t) = Fin 1 \<and> ease_out_cubic (Fin 1) = Fin 1
       \<and> p_camFov (snd (transitionAnimate (Fin t0) pid (Fin t) (rt, p))) = Fin 100
       \<and> p_camZ (snd (transitionAnimate (Fin t0) pid (Fin t) (rt, p))) = Fin (- 0.5)
       \<and> fst (transitionAnimate (Fin t0) pid (Fin t) (rt, p)) = resolve pid rt"
  using assms
  by (simp add: transitionAnimate_def transition_progress_done Let_def ease_out_cubic_def
        js_sub_def js_pow_def)

theorem transition_complete_camera_witness:
  "\<not> p_isDestroyed demo_portal \<and> (0.7::real) \<le> 2.7 - 2
   \<and> p_camFov (snd (transitionAnimate (Fin 2) 0 (Fin 2.7) (fresh_runtime, demo_portal))) = Fin 100
   \<and> p_camZ (snd (transitionAnimate (Fin 2) 0 (Fin 2.7) (fresh_runtime, demo_portal)))
       = Fin (- 0.5)"
  using transition_complete_camera[of demo_portal "2.7" 2 0 fresh_runtime]
  by (simp add: demo_portal_fields)

section \<open>Teardown\<close>




text \<open>
  C5: once the flag \<^verbatim>\<open>isDestroyed\<close> of a scene is set, a frame callback that still runs
  returns at once: the portal's \<^verbatim>\<open>animate\<close> and the world's \<^verbatim>\<open>animate\<close> change neither the
  scene nor the runtime (no update, no render, no new request), the portal's
  \<^verbatim>\<open>transitionAnimate\<close> changes nothing of the scene and requests no frame, and the resize
  listeners change neither camera aspect nor renderer size. The other methods keep the
  flag set, and \<^verbatim>\<open>destroy\<close> sets it.
\<close>

theorem destroyed_controller_is_inert:
  "(p_isDestroyed p \<longrightarrow>
      portal_animate time (rt, p) = (rt, p)
    \<and> snd (transitionAnimate startTime pid time (rt, p)) = p
    \<and> rafQueue (fst (transitionAnimate startTime pid time (rt, p))) = rafQueue rt
    \<and> portal_resize w p = p
    \<and> p_isDestroyed (portal_mousemove w x y p)
    \<and> p_isDestroyed (snd (snd (transitionOut time (rt, p)))))
 \<and> (w_isDestroyed ws \<longrightarrow>
      world_animate self time (rt, ws) = (rt, ws)
    \<and> world_resize w ws = ws
    \<and> w_isDestroyed (world_handleMove w x y ws)
    \<and> w_isDestroyed (updateScroll progress ws))
 \<and> p_isDestroyed (snd (portal_destroy (rt, p)))
 \<and> w_isDestroyed (snd (world_destroy (rt, ws)))"
  by (simp add: portal_animate_def transitionAnimate_def portal_resize_def world_animate_def
        world_resize_def portal_destroy_def world_destroy_def resolve_def portal_mousemove_def
        transitionOut_def world_handleMove_def updateScroll_def new_promise_def
        requestAnimationFrame_def Let_def)

theorem destroyed_controller_is_inert_witness:
  "p_isDestroyed (snd (portal_destroy (fresh_runtime, demo_portal)))
 \<and> w_isDestroyed (snd (world_destroy (fresh_runtime, demo_world)))
 \<and> portal_animate (Fin 3) (fresh_runtime, snd (portal_destroy (fresh_runtime, demo_portal)))
     = (fresh_runtime, snd (portal_destroy (fresh_runtime, demo_portal)))
 \<and> snd (transitionAnimate (Fin 2) 0 (Fin 3) (fresh_runtime, snd (portal_destroy (fresh_runtime, demo_portal))))
     = snd (portal_destroy (fresh_runtime, demo_portal))
 \<and> portal_resize demo_window (snd (portal_destroy (fresh_runtime, demo_portal)))
     = snd (portal_destroy (fresh_runtime, demo_portal))
 \<and> world_animate 0 (Fin 3) (fresh_runtime, snd (world_destroy (fresh_runtime, demo_world)))
     = (fresh_runtime, snd (world_destroy (fresh_runtime, demo_world)))
 \<and> world_resize demo_window (snd (world_destroy (fresh_runtime, demo_world)))
     = snd (world_destroy (fresh_runtime, demo_world))"
  using destroyed_controller_is_inert
          [of "snd (portal_destroy (fresh_runtime, demo_portal))" "Fin 3" fresh_runtime "Fin 2" 0
              demo_window "Fin 0" "Fin 0" "snd (world_destroy (fresh_runtime, demo_world))" 0 "Fin 0"]
  by (simp add: portal_destroy_def world_destroy_def)


section \<open>A visit evaluated\<close>

lemmas eval_defs = run_def step_def new_GallantExperience_def
     new_PortalScene_def portal_animate_def requestAnimationFrame_def enterWorld_def call_def transitionOut_def
     new_promise_def run_frame_def run_callback_def transitionAnimate_def resolve_def resolve_calls_def
     run_microtasks_def settled_def resume_def after_transitionOut_def after_flashPeak_def after_worldStart_def
     after_flashHold_def setTimeout_def initWorld_def new_WorldScene_def world_animate_def fire_timer_def
     portal_destroy_def cancelAnimationFrame_def transition_progress_def ease_out_cubic_def js_sub_def js_pow_def
     vec2_lerp_def lerp1_def vec2_length_def Let_def

lemma demo_experience_observed:
  "observed demo_experience =
     (World,
      [PlayTransitionWhoosh, AudioStart, FadePortalUI, CallTransitionOut, FlashOn,
       ShowWorldContainer, ConstructWorldScene, HidePortalContainer, CallPortalDestroy,
       FlashOff, AudioStop, RevealWorld], 1, Some 0, 1)"
  unfolding demo_experience_def demo_page_def demo_visit_def demo_window_def
  by (simp add: eval_defs observed_def)

section \<open>The scroll listener\<close>

lemma funpow_idem:
  assumes "\<And>x. f (f x) = f x" and "0 < n"
  shows "(f ^^ n) x = f x"
  using assms(2)
proof (induction n)
  case 0
  then show ?case by simp
next
  case (Suc n)
  then show ?case by (cases "n = 0") (simp_all add: assms(1))
qed

lemma on_scroll_idem:
  "on_scroll a b c (on_scroll a b c s) = on_scroll a b c s"
  by (simp add: on_scroll_def updateScroll_def split: option.splits)

lemma scroll_progress_zero_range:
  "scroll_progress (Fin st) (Fin h) (Fin h) =
     (if st = 0 then NaN else if 0 < st then PInf else NInf)"
  by (simp add: scroll_progress_def js_sub_def js_signed_inf_def)

text \<open>
  C1, as stated: when \<^verbatim>\<open>scrollHeight\<close> equals \<^verbatim>\<open>clientHeight\<close> the orchestrator passes 0 to
  \<^verbatim>\<open>updateScroll\<close>. It fails after the visit \<open>demo_visit\<close>, for a scroll event with
  \<^verbatim>\<open>scrollTop\<close> 0 and both heights 800: the world scene receives \<^verbatim>\<open>NaN\<close>.
\<close>

theorem scroll_without_overflow_counterexample:
  "map w_scrollProgress
     (worldHeap (step demo_page (Scroll (Fin 0) (Fin 800) (Fin 800)) demo_experience)) = [NaN]"
proof -
  have o: "length (worldHeap demo_experience) = 1" "worldRef demo_experience = Some 0"
    "scrollListeners demo_experience = 1"
    using demo_experience_observed by (simp_all add: observed_def)
  obtain w where w: "worldHeap demo_experience = [w]"
    using o(1) by (cases "worldHeap demo_experience") auto
  show ?thesis
    using o by (simp add: step_def on_scroll_def w updateScroll_def scroll_progress_zero_range)
qed

text \<open>
  C1, amended: when \<^verbatim>\<open>scrollHeight\<close> equals \<^verbatim>\<open>clientHeight\<close> the scroll listener passes the
  quotient of \<^verbatim>\<open>scrollTop\<close> by zero to \<^verbatim>\<open>updateScroll\<close> as it is: \<^verbatim>\<open>NaN\<close> when \<^verbatim>\<open>scrollTop\<close>
  is 0, \<^verbatim>\<open>Infinity\<close> when it is positive, \<^verbatim>\<open>-Infinity\<close> when it is negative; the world
  scene stores that value as its scroll progress.
\<close>

theorem scroll_without_overflow_passes_quotient:
  assumes "0 < scrollListeners s" and "worldRef s = Some i" and "i < length (worldHeap s)"
  shows "w_scrollProgress (worldHeap (step pg (Scroll (Fin st) (Fin h) (Fin h)) s) ! i)
           = (if st = 0 then NaN else if 0 < st then PInf else NInf)"
proof -
  have "step pg (Scroll (Fin st) (Fin h) (Fin h)) s = on_scroll (Fin st) (Fin h) (Fin h) s"
    using funpow_idem[of "on_scroll (Fin st) (Fin h) (Fin h)", OF on_scroll_idem assms(1)]
    by (simp add: step_def)
  then show ?thesis
    using assms(2,3)
    by (simp add: on_scroll_def updateScroll_def scroll_progress_zero_range)
qed

theorem scroll_without_overflow_passes_quotient_witness:
  "0 < scrollListeners demo_experience \<and> worldRef demo_experience = Some 0
   \<and> 0 < length (worldHeap demo_experience)
   \<and> w_scrollProgress
       (worldHeap (step demo_page (Scroll (Fin 120) (Fin 800) (Fin 800)) demo_experience) ! 0)
     = PInf"
proof -
  have o: "length (worldHeap demo_experience) = 1" "worldRef demo_experience = Some 0"
    "scrollListeners demo_experience = 1"
    using demo_experience_observed by (simp_all add: observed_def)
  show ?thesis
    using scroll_without_overflow_passes_quotient[of demo_experience 0 demo_page 120 800] o
    by simp
qed

section \<open>The phase transition runs once\<close>

lemmas stage_defs = enter_inv_def pre_world_def world_built_def portal_gone_def portal_live_def

lemma teardown_animate [simp]:
  "portal_teardown (snd (portal_animate time (rt, p))) = portal_teardown p"
  by (simp add: portal_teardown_def portal_animate_def requestAnimationFrame_def Let_def)

lemma teardown_transitionAnimate [simp]:
  "portal_teardown (snd (transitionAnimate startTime pid time (rt, p))) = portal_teardown p"
  by (simp add: portal_teardown_def transitionAnimate_def Let_def)

lemma teardown_transitionOut [simp]:
  "portal_teardown (snd (snd (transitionOut time (rt, p)))) = portal_teardown p"
  by (simp add: portal_teardown_def transitionOut_def new_promise_def requestAnimationFrame_def)

lemma teardown_listeners [simp]:
  "portal_teardown (portal_mousemove w x y p) = portal_teardown p"
  "portal_teardown (portal_resize w p) = portal_teardown p"
  by (simp_all add: portal_teardown_def portal_mousemove_def portal_resize_def)

lemma teardown_new [simp]:
  "portal_teardown (snd (new_PortalScene w positions rt)) = (False, 0, portal_graph)"
  by (simp add: portal_teardown_def new_PortalScene_def portal_animate_def
        requestAnimationFrame_def Let_def)

lemma teardown_destroy [simp]:
  "portal_teardown (snd (portal_destroy (rt, p)))
     = (True, Suc (p_rendererDisposals p), map dispose_obj (p_graph p))"
  by (simp add: portal_teardown_def portal_destroy_def)

lemma teardown_None: "map_option portal_teardown x = map_option portal_teardown y
    \<Longrightarrow> (x = None) = (y = None)"
  by (cases x; cases y) simp_all

lemma enter_inv_view:
  assumes "view s' = view s"
  shows "enter_inv pg s' = enter_inv pg s"
proof -
  have "length (worldHeap s') = length (worldHeap s)" using assms by (simp add: view_def)
  then have "(worldHeap s' = []) = (worldHeap s = [])" by (metis length_0_conv)
  moreover have "(portalHeap s' = None) = (portalHeap s = None)"
    using assms by (intro teardown_None) (simp add: view_def)
  ultimately show ?thesis using assms by (simp add: stage_defs view_def)
qed

lemma enter_inv_cases:
  assumes "enter_inv pg s"
  obtains
    (idle) "currentPhase s = Portal" "awaiting s = []" "timers s = []" "pre_world pg s"
  | (transition) pid where "currentPhase s = World" "awaiting s = [(pid, AfterTransitionOut)]"
      "timers s = []" "pre_world pg s"
  | (flash) h ms where "currentPhase s = World" "awaiting s = []"
      "timers s = [(h, ms, AfterFlashPeak)]" "pre_world pg s"
  | (started) h ms where "currentPhase s = World" "awaiting s = []"
      "timers s = [(h, ms, AfterWorldStart)]" "world_built pg s"
      "portalRef s = page_portalCanvas pg" "portal_live pg s"
      "count_list (actions s) CallPortalDestroy = 0"
      "RevealWorld \<notin> set (actions s)"
  | (hold) h ms where "currentPhase s = World" "awaiting s = []"
      "timers s = [(h, ms, AfterFlashHold)]" "world_built pg s" "portal_gone pg s"
      "RevealWorld \<notin> set (actions s)"
  | (finished) "currentPhase s = World" "awaiting s = []" "timers s = []" "world_built pg s"
      "portal_gone pg s"
  using assms unfolding enter_inv_def by blast

lemma enter_inv_heap: "enter_inv pg s \<Longrightarrow> (portalHeap s \<noteq> None) = page_portalCanvas pg"
  unfolding enter_inv_def by blast

lemma enter_inv_initial: "enter_inv pg (new_GallantExperience pg w)"
  by (simp add: stage_defs new_GallantExperience_def Let_def split_beta)

lemma after_transitionOut_inv:
  assumes "(portalHeap s \<noteq> None) = page_portalCanvas pg" "currentPhase s = World"
    "awaiting s = []" "timers s = []" "pre_world pg s"
  shows "enter_inv pg (after_transitionOut s)"
  using assms by (simp add: stage_defs after_transitionOut_def setTimeout_def call_def)

lemma enter_inv_click:
  assumes "enter_inv pg s"
  shows "enter_inv pg (enterWorld pg t s)"
proof (cases "currentPhase s = Portal")
  case False
  then show ?thesis using assms by (simp add: enterWorld_def)
next
  case True
  with assms have st: "awaiting s = []" "timers s = []" "pre_world pg s"
    by (auto elim: enter_inv_cases)
  note hp = enter_inv_heap[OF assms]
  define s1 where "s1 = call [PlayTransitionWhoosh, AudioStart, FadePortalUI] (s\<lparr>currentPhase := World\<rparr>)"
  have s1: "(portalHeap s1 \<noteq> None) = page_portalCanvas pg" "currentPhase s1 = World"
    "awaiting s1 = []" "timers s1 = []" "pre_world pg s1" "portalRef s1 = portalRef s"
    "portalHeap s1 = portalHeap s"
    using st hp by (simp_all add: s1_def call_def pre_world_def portal_live_def)
  have e: "enterWorld pg t s =
     (if portalRef s1
           then (case portalHeap s1 of
                   Some p \<Rightarrow>
                     let (pr, rt', p') = transitionOut t (browser s1, p);
                         s2 = (call [CallTransitionOut] s1)\<lparr>browser := rt', portalHeap := Some p'\<rparr>
                     in (case pr of
                           Fulfilled \<Rightarrow> after_transitionOut s2
                         | Follows pid \<Rightarrow> s2\<lparr>awaiting := awaiting s2 @ [(pid, AfterTransitionOut)]\<rparr>)
                 | None \<Rightarrow> after_transitionOut s1)
           else after_transitionOut s1)"
    unfolding enterWorld_def s1_def Let_def using True by simp
  show ?thesis
  proof (cases "portalRef s1 \<and> portalHeap s1 \<noteq> None")
    case False
    then have "enterWorld pg t s = after_transitionOut s1"
      unfolding e by (auto split: option.splits)
    then show ?thesis using after_transitionOut_inv[OF s1(1-5)] by simp
  next
    case True
    then obtain p where p: "portalHeap s1 = Some p" and r: "portalRef s1" by auto
    obtain pr rt' p' where tr: "transitionOut t (browser s1, p) = (pr, rt', p')"
      by (cases "transitionOut t (browser s1, p)") auto
    have td: "portal_teardown p' = portal_teardown p"
      using teardown_transitionOut[of t "browser s1" p] tr by simp
    define s2 where "s2 = (call [CallTransitionOut] s1)\<lparr>browser := rt', portalHeap := Some p'\<rparr>"
    have s2: "(portalHeap s2 \<noteq> None) = page_portalCanvas pg" "currentPhase s2 = World"
      "awaiting s2 = []" "timers s2 = []" "pre_world pg s2"
      using s1 p r td by (auto simp: s2_def call_def pre_world_def portal_live_def)
    have e2: "enterWorld pg t s = (case pr of
                           Fulfilled \<Rightarrow> after_transitionOut s2
                         | Follows pid \<Rightarrow> s2\<lparr>awaiting := awaiting s2 @ [(pid, AfterTransitionOut)]\<rparr>)"
      unfolding e s2_def Let_def using p r tr by simp
    show ?thesis
    proof (cases pr)
      case Fulfilled
      then show ?thesis using after_transitionOut_inv[OF s2] e2 by simp
    next
      case (Follows pid)
      then show ?thesis using s2 e2 by (simp add: stage_defs)
    qed
  qed
qed


lemma run_microtasks_inv:
  assumes "enter_inv pg s"
  shows "enter_inv pg (run_microtasks pg s)"
proof (cases "awaiting s")
  case Nil
  then have "view (run_microtasks pg s) = view s"
    by (simp add: run_microtasks_def view_def)
  then show ?thesis using assms enter_inv_view by blast
next
  case (Cons a as)
  have "\<exists>pid. currentPhase s = World \<and> awaiting s = [(pid, AfterTransitionOut)]
          \<and> timers s = [] \<and> pre_world pg s"
    using assms Cons by (cases rule: enter_inv_cases) auto
  then obtain pid where st: "currentPhase s = World" "awaiting s = [(pid, AfterTransitionOut)]"
      "timers s = []" "pre_world pg s"
    by blast
  show ?thesis
  proof (cases "settled s (pid, AfterTransitionOut)")
    case False
    then have "view (run_microtasks pg s) = view s"
      using st by (simp add: run_microtasks_def view_def)
    then show ?thesis using assms enter_inv_view by blast
  next
    case True
    then have "run_microtasks pg s = after_transitionOut (s\<lparr>awaiting := []\<rparr>)"
      using st by (simp add: run_microtasks_def resume_def)
    moreover have "enter_inv pg (after_transitionOut (s\<lparr>awaiting := []\<rparr>))"
      using st enter_inv_heap[OF assms]
      by (intro after_transitionOut_inv) (simp_all add: pre_world_def portal_live_def)
    ultimately show ?thesis by simp
  qed
qed

lemma run_callback_inv:
  assumes "enter_inv pg s"
  shows "enter_inv pg (run_callback pg tp tw cb s)"
proof (cases cb)
  case PortalAnimate
  then have "view (run_callback pg tp tw cb s) = view s"
    by (simp add: run_callback_def view_def split_beta split: option.splits)
  then show ?thesis using assms enter_inv_view by blast
next
  case (WorldAnimate i)
  then have "view (run_callback pg tp tw cb s) = view s"
    by (simp add: run_callback_def view_def split: prod.splits)
  then show ?thesis using assms enter_inv_view by blast
next
  case (TransitionAnimate startTime pid)
  show ?thesis
  proof (cases "portalHeap s")
    case None
    then show ?thesis using assms TransitionAnimate by (simp add: run_callback_def)
  next
    case (Some p)
    obtain rt' p' where r: "transitionAnimate startTime pid tp (browser s, p) = (rt', p')"
      by (cases "transitionAnimate startTime pid tp (browser s, p)") auto
    have "portal_teardown p' = portal_teardown p"
      using teardown_transitionAnimate[of startTime pid tp "browser s" p] r by simp
    then have "view (s\<lparr>browser := rt', portalHeap := Some p'\<rparr>) = view s"
      using Some by (simp add: view_def)
    then have "enter_inv pg (s\<lparr>browser := rt', portalHeap := Some p'\<rparr>)"
      using assms enter_inv_view by blast
    then show ?thesis
      using TransitionAnimate Some r by (simp add: run_callback_def run_microtasks_inv)
  qed
qed

lemma run_callbacks_inv:
  "enter_inv pg s \<Longrightarrow> enter_inv pg (foldl (\<lambda>s' (h, cb). run_callback pg tp tw cb s') s cbs)"
  by (induction cbs arbitrary: s) (auto simp: run_callback_inv)

lemma run_frame_inv:
  assumes "enter_inv pg s"
  shows "enter_inv pg (run_frame pg tp tw s)"
proof -
  have "view (s\<lparr>browser := (browser s)\<lparr>rafQueue := []\<rparr>\<rparr>) = view s" by (simp add: view_def)
  then have "enter_inv pg (s\<lparr>browser := (browser s)\<lparr>rafQueue := []\<rparr>\<rparr>)"
    using assms enter_inv_view by blast
  then show ?thesis unfolding run_frame_def by (rule run_callbacks_inv)
qed

lemma initWorld_built:
  assumes "pre_world pg s"
  shows "world_built pg (initWorld pg (call [ShowWorldContainer] s))"
    and "portalRef (initWorld pg (call [ShowWorldContainer] s)) = portalRef s"
    and "count_list (actions (initWorld pg (call [ShowWorldContainer] s))) CallPortalDestroy = 0"
    and "RevealWorld \<notin> set (actions (initWorld pg (call [ShowWorldContainer] s)))"
    and "portalHeap (initWorld pg (call [ShowWorldContainer] s)) = portalHeap s"
    and "currentPhase (initWorld pg (call [ShowWorldContainer] s)) = currentPhase s"
    and "awaiting (initWorld pg (call [ShowWorldContainer] s)) = awaiting s"
    and "timers (initWorld pg (call [ShowWorldContainer] s)) = timers s"
  using assms
  by (simp_all add: initWorld_def call_def pre_world_def portal_live_def world_built_def Let_def split: prod.splits)

lemma fire_timer_inv:
  assumes "enter_inv pg s"
  shows "enter_inv pg (fire_timer pg h s)"
  using assms
proof (cases rule: enter_inv_cases)
  case idle
  then show ?thesis using assms by (simp add: fire_timer_def)
next
  case (transition pid)
  then show ?thesis using assms by (simp add: fire_timer_def)
next
  case (flash h' ms)
  show ?thesis
  proof (cases "h' = h")
    case False
    then have "view (fire_timer pg h s) = view s" using flash by (simp add: fire_timer_def view_def)
    then show ?thesis using assms enter_inv_view by blast
  next
    case True
    define s0 where "s0 = s\<lparr>timers := []\<rparr>"
    have p0: "pre_world pg s0" using flash by (simp add: s0_def pre_world_def portal_live_def)
    have "fire_timer pg h s = after_flashPeak pg s0"
      using True flash by (simp add: fire_timer_def resume_def s0_def)
    moreover have "enter_inv pg (after_flashPeak pg s0)"
      using initWorld_built[OF p0] flash enter_inv_heap[OF assms]
      by (simp add: enter_inv_def after_flashPeak_def setTimeout_def s0_def pre_world_def portal_live_def world_built_def)
    ultimately show ?thesis by simp
  qed
next
  case (started h' ms)
  show ?thesis
  proof (cases "h' = h")
    case False
    then have "view (fire_timer pg h s) = view s" using started by (simp add: fire_timer_def view_def)
    then show ?thesis using assms enter_inv_view by blast
  next
    case True
    have "fire_timer pg h s = after_worldStart (s\<lparr>timers := []\<rparr>)"
      using True started by (simp add: fire_timer_def resume_def)
    moreover have "enter_inv pg (after_worldStart (s\<lparr>timers := []\<rparr>))"
      using started enter_inv_heap[OF assms]
      by (auto simp: enter_inv_def after_worldStart_def setTimeout_def call_def Let_def
            portal_gone_def portal_live_def world_built_def portal_teardown_def
            portal_destroy_def split_beta
          split: option.splits)
    ultimately show ?thesis by simp
  qed
next
  case (hold h' ms)
  show ?thesis
  proof (cases "h' = h")
    case False
    then have "view (fire_timer pg h s) = view s" using hold by (simp add: fire_timer_def view_def)
    then show ?thesis using assms enter_inv_view by blast
  next
    case True
    have "fire_timer pg h s = after_flashHold (s\<lparr>timers := []\<rparr>)"
      using True hold by (simp add: fire_timer_def resume_def)
    moreover have "enter_inv pg (after_flashHold (s\<lparr>timers := []\<rparr>))"
      using hold enter_inv_heap[OF assms]
      by (simp add: enter_inv_def after_flashHold_def call_def portal_gone_def portal_live_def world_built_def)
    ultimately show ?thesis by simp
  qed
next
  case finished
  then show ?thesis using assms by (simp add: fire_timer_def)
qed

lemma on_scroll_view: "view (on_scroll a b c s) = view s"
  by (simp add: on_scroll_def view_def split: option.splits)

lemma on_scrolls_view: "view ((on_scroll a b c ^^ n) s) = view s"
  by (induction n) (simp_all add: on_scroll_view)

lemma step_inv:
  assumes "enter_inv pg s"
  shows "enter_inv pg (step pg ev s)"
proof (cases ev)
  case (ClickEnter t)
  then show ?thesis using assms by (simp add: step_def enter_inv_click)
next
  case HoverEnter
  then have "enter_inv pg (step pg ev s) = enter_inv pg s"
    by (simp add: step_def call_def stage_defs)
  then show ?thesis using assms by simp
next
  case (Frame tp tw)
  then show ?thesis using assms by (simp add: step_def run_frame_inv)
next
  case (TimerFires h)
  then show ?thesis using assms by (simp add: step_def fire_timer_inv)
next
  case (Scroll a b c)
  then have "view (step pg ev s) = view s" by (simp add: step_def on_scrolls_view)
  then show ?thesis using assms enter_inv_view by blast
next
  case (Resize w)
  then have "view (step pg ev s) = view s"
    by (simp add: step_def view_def option.map_comp comp_def)
  then show ?thesis using assms enter_inv_view by blast
next
  case (MouseMove x y)
  then have "view (step pg ev s) = view s"
    by (simp add: step_def view_def option.map_comp comp_def)
  then show ?thesis using assms enter_inv_view by blast
next
  case (TouchMove x y)
  then have "view (step pg ev s) = view s" by (simp add: step_def view_def)
  then show ?thesis using assms enter_inv_view by blast
qed

lemma run_inv: "enter_inv pg s \<Longrightarrow> enter_inv pg (run pg evs s)"
  unfolding run_def by (induction evs arbitrary: s) (simp_all add: step_inv)

lemma enter_inv_counts:
  assumes "enter_inv pg s"
  shows "count_list (actions s) CallPortalDestroy \<le> 1"
    and "count_list (actions s) ConstructWorldScene \<le> 1"
    and "length (worldHeap s) \<le> 1"
    and "RevealWorld \<in> set (actions s) \<Longrightarrow> page_portalCanvas pg
           \<Longrightarrow> count_list (actions s) CallPortalDestroy = 1"
    and "RevealWorld \<in> set (actions s) \<Longrightarrow> page_worldCanvas pg
           \<Longrightarrow> count_list (actions s) ConstructWorldScene = 1 \<and> length (worldHeap s) = 1"
    and "page_portalCanvas pg \<Longrightarrow>
           map_option portal_teardown (portalHeap s)
             = Some (if count_list (actions s) CallPortalDestroy = 0
                     then (False, 0, portal_graph)
                     else (True, 1, map dispose_obj portal_graph))"
  using assms
  by (auto elim!: enter_inv_cases simp: pre_world_def portal_live_def world_built_def portal_gone_def split: if_splits)

lemma second_click_noop:
  "step pg (ClickEnter t2) (step pg (ClickEnter t1) s) = step pg (ClickEnter t1) s"
proof (cases "enterListener s \<and> currentPhase s = Portal")
  case False
  then show ?thesis by (auto simp: step_def enterWorld_def)
next
  case True
  have "currentPhase (enterWorld pg t1 s) = World"
    using True
    by (simp add: enterWorld_def after_transitionOut_def setTimeout_def call_def Let_def
          split: option.splits prod.splits promise.splits)
  then show ?thesis using True by (simp add: step_def enterWorld_def)
qed

text \<open>
  C4: a call of \<^verbatim>\<open>enterWorld\<close> outside the portal phase returns the state as it is, so a
  second click right after the first changes nothing. On a page with both canvases,
  whatever events follow the construction (clicks at any moment included), the
  orchestrator calls \<^verbatim>\<open>destroy\<close> on the portal at most once and builds at most one world
  scene, and exactly one of each once \<^verbatim>\<open>enterWorld\<close> has run to its last statement. The
  calls are read from the portal object as well as from the record of calls: as long as
  no \<^verbatim>\<open>destroy\<close> is recorded the portal is live, its renderer and scene graph untouched;
  once one is recorded the portal's flag is set, its renderer has received exactly one
  \<^verbatim>\<open>dispose()\<close> and every geometry and material of its scene graph exactly one.
\<close>

theorem enter_twice_builds_and_destroys_once:
  assumes "page_portalCanvas pg" and "page_worldCanvas pg"
  shows "(currentPhase s \<noteq> Portal \<longrightarrow> enterWorld pg t s = s)
       \<and> run pg (ClickEnter t1 # ClickEnter t2 # evs) s = run pg (ClickEnter t1 # evs) s
       \<and> count_list (actions (run pg evs (new_GallantExperience pg w))) CallPortalDestroy \<le> 1
       \<and> count_list (actions (run pg evs (new_GallantExperience pg w))) ConstructWorldScene \<le> 1
       \<and> length (worldHeap (run pg evs (new_GallantExperience pg w))) \<le> 1
       \<and> (RevealWorld \<in> set (actions (run pg evs (new_GallantExperience pg w))) \<longrightarrow>
            count_list (actions (run pg evs (new_GallantExperience pg w))) CallPortalDestroy = 1
          \<and> count_list (actions (run pg evs (new_GallantExperience pg w))) ConstructWorldScene = 1
          \<and> length (worldHeap (run pg evs (new_GallantExperience pg w))) = 1)
       \<and> map_option portal_teardown (portalHeap (run pg evs (new_GallantExperience pg w)))
           = Some (if count_list (actions (run pg evs (new_GallantExperience pg w)))
                        CallPortalDestroy = 0
                   then (False, 0, portal_graph)
                   else (True, 1, map dispose_obj portal_graph))"
proof -
  have a: "currentPhase s \<noteq> Portal \<longrightarrow> enterWorld pg t s = s"
    by (simp add: enterWorld_def)
  have b: "run pg (ClickEnter t1 # ClickEnter t2 # evs) s = run pg (ClickEnter t1 # evs) s"
    by (simp add: run_def second_click_noop)
  have i: "enter_inv pg (run pg evs (new_GallantExperience pg w))"
    by (rule run_inv[OF enter_inv_initial])
  show ?thesis
    using a b enter_inv_counts(1-5)[OF i] enter_inv_counts(6)[OF i assms(1)] assms by blast
qed

theorem enter_twice_builds_and_destroys_once_witness:
  "page_portalCanvas demo_page \<and> page_worldCanvas demo_page
   \<and> currentPhase demo_experience \<noteq> Portal
   \<and> enterWorld demo_page (Fin 9) demo_experience = demo_experience
   \<and> RevealWorld \<in> set (actions demo_experience)
   \<and> count_list (actions demo_experience) CallPortalDestroy = 1
   \<and> count_list (actions demo_experience) ConstructWorldScene = 1
   \<and> length (worldHeap demo_experience) = 1
   \<and> map_option portal_teardown (portalHeap demo_experience)
       = Some (True, 1, map dispose_obj portal_graph)"
  using enter_twice_builds_and_destroys_once
          [where pg = demo_page and s = demo_experience and t = "Fin 9" and evs = demo_visit
             and w = demo_window, folded demo_experience_def]
        demo_experience_observed
  by (simp add: observed_def demo_page_def)

section \<open>The portal transition resolves once\<close>

lemma transitions_simps [simp]:
  "transitions [] = []"
  "transitions (xs @ ys) = transitions xs @ transitions ys"
  "transitions ((h, PortalAnimate) # xs) = transitions xs"
  "transitions ((h, WorldAnimate i) # xs) = transitions xs"
  "transitions ((h, TransitionAnimate st pid) # xs) = (h, TransitionAnimate st pid) # transitions xs"
  by (simp_all add: transitions_def is_transition_def)

lemma portal_frame_fold:
  "portal_frame time (rt, p) =
     foldl (\<lambda>st (h, cb). portal_callback time cb st) (rt\<lparr>rafQueue := []\<rparr>, p) (rafQueue rt)"
  by (simp add: portal_frame_def)


lemma portal_animate_effect:
  obtains (skip) "p_isDestroyed p" "portal_animate time (rt, p) = (rt, p)"
  | (live) rt' p' where "\<not> p_isDestroyed p" "portal_animate time (rt, p) = (rt', p')"
      "rafQueue rt' = rafQueue rt @ [(rafNext rt, PortalAnimate)]"
      "rafNext rt' = Suc (rafNext rt)" "promises rt' = promises rt"
      "p_animationId p' = rafNext rt" "p_isTransitioning p' = p_isTransitioning p"
      "p_isDestroyed p' = p_isDestroyed p"
proof (cases "p_isDestroyed p")
  case True
  then show ?thesis using skip by (simp add: portal_animate_def)
next
  case False
  obtain rt' p' where e: "portal_animate time (rt, p) = (rt', p')"
    by (cases "portal_animate time (rt, p)") auto
  from e False have
      "rafQueue rt' = rafQueue rt @ [(rafNext rt, PortalAnimate)]"
      "rafNext rt' = Suc (rafNext rt)" "promises rt' = promises rt"
      "p_animationId p' = rafNext rt" "p_isTransitioning p' = p_isTransitioning p"
      "p_isDestroyed p' = p_isDestroyed p"
    by (auto simp: portal_animate_def requestAnimationFrame_def Let_def)
  then show ?thesis using live False e by blast
qed

lemma transitionAnimate_effect:
  obtains (settle) p' where
      "p_isDestroyed p \<or> \<not> js_lt (transition_progress st time) (Fin 1)"
      "transitionAnimate st pid time (rt, p) = (resolve pid rt, p')"
      "p_animationId p' = p_animationId p" "p_isTransitioning p' = p_isTransitioning p"
      "p_isDestroyed p' = p_isDestroyed p" "p_isDestroyed p \<longrightarrow> p' = p"
  | (again) rt' p' where
      "\<not> p_isDestroyed p" "js_lt (transition_progress st time) (Fin 1)"
      "transitionAnimate st pid time (rt, p) = (rt', p')"
      "rafQueue rt' = rafQueue rt @ [(rafNext rt, TransitionAnimate st pid)]"
      "rafNext rt' = Suc (rafNext rt)" "promises rt' = promises rt"
      "p_animationId p' = p_animationId p" "p_isTransitioning p' = p_isTransitioning p"
      "p_isDestroyed p' = p_isDestroyed p"
proof (cases "p_isDestroyed p \<or> \<not> js_lt (transition_progress st time) (Fin 1)")
  case True
  obtain rt' p' where e: "transitionAnimate st pid time (rt, p) = (rt', p')"
    by (cases "transitionAnimate st pid time (rt, p)") auto
  from e True have "rt' = resolve pid rt"
      "p_animationId p' = p_animationId p" "p_isTransitioning p' = p_isTransitioning p"
      "p_isDestroyed p' = p_isDestroyed p" "p_isDestroyed p \<longrightarrow> p' = p"
    by (auto simp: transitionAnimate_def Let_def split: if_splits)
  then show ?thesis using settle True e by blast
next
  case False
  obtain rt' p' where e: "transitionAnimate st pid time (rt, p) = (rt', p')"
    by (cases "transitionAnimate st pid time (rt, p)") auto
  from e False have
      "rafQueue rt' = rafQueue rt @ [(rafNext rt, TransitionAnimate st pid)]"
      "rafNext rt' = Suc (rafNext rt)" "promises rt' = promises rt"
      "p_animationId p' = p_animationId p" "p_isTransitioning p' = p_isTransitioning p"
      "p_isDestroyed p' = p_isDestroyed p"
    by (auto simp: transitionAnimate_def requestAnimationFrame_def Let_def)
  then show ?thesis using again False e by blast
qed

lemma resolve_fields [simp]:
  "rafQueue (resolve pid rt) = rafQueue rt" "rafNext (resolve pid rt) = rafNext rt"
  "length (promises (resolve pid rt)) = length (promises rt)"
  by (simp_all add: resolve_def)

lemma resolve_calls_resolve:
  "resolve_calls (resolve pid rt) q =
     (if q = pid \<and> pid < length (promises rt) then Suc (resolve_calls rt q) else resolve_calls rt q)"
  by (auto simp: resolve_def resolve_calls_def)

lemma idle_inv_iff:
  "idle_inv (unrun xs (rt, p)) \<longleftrightarrow>
     p_animationId p < rafNext rt
     \<and> (\<forall>x \<in> set xs \<union> set (rafQueue rt). fst x < rafNext rt)
     \<and> (\<not> p_isTransitioning p \<longrightarrow> transitions xs = [] \<and> transitions (rafQueue rt) = [])"
  by (auto simp: idle_inv_def handles_fresh_def unrun_def)

lemma idle_inv_callback:
  assumes "idle_inv (unrun ((h, cb) # xs) (rt, p))"
  shows "idle_inv (unrun xs (portal_callback time cb (rt, p)))"
proof (cases cb)
  case PortalAnimate
  show ?thesis
  proof (cases rule: portal_animate_effect[of p time rt])
    case skip
    then show ?thesis using assms PortalAnimate
      by (simp add: portal_callback_def idle_inv_iff)
  next
    case (live rt' p')
    have "\<forall>x \<in> set xs \<union> set (rafQueue rt). fst x < Suc (rafNext rt)"
      using assms by (auto simp: idle_inv_iff less_SucI)
    then show ?thesis using assms PortalAnimate live
      by (simp add: portal_callback_def idle_inv_iff)
  qed
next
  case (TransitionAnimate st pid)
  then have tr: "p_isTransitioning p" using assms by (auto simp: idle_inv_iff)
  show ?thesis
  proof (cases rule: transitionAnimate_effect[of p st time pid rt])
    case (settle p')
    then show ?thesis using assms TransitionAnimate tr
      by (simp add: portal_callback_def idle_inv_iff)
  next
    case (again rt' p')
    have "\<forall>x \<in> set xs \<union> set (rafQueue rt). fst x < Suc (rafNext rt)"
      using assms by (auto simp: idle_inv_iff less_SucI)
    then show ?thesis using assms TransitionAnimate again tr
      by (simp add: portal_callback_def idle_inv_iff)
  qed
next
  case (WorldAnimate i)
  then show ?thesis using assms by (simp add: portal_callback_def idle_inv_iff)
qed

lemma idle_inv_callbacks:
  "idle_inv (unrun xs st) \<Longrightarrow>
   idle_inv (foldl (\<lambda>st (h, cb). portal_callback time cb st) st xs)"
proof (induction xs arbitrary: st)
  case Nil
  then show ?case by (cases st) (simp add: unrun_def)
next
  case (Cons x xs)
  obtain h cb where x: "x = (h, cb)" by (cases x)
  obtain rt p where st: "st = (rt, p)" by (cases st)
  have "idle_inv (unrun xs (portal_callback time cb (rt, p)))"
    using Cons.prems unfolding x st by (rule idle_inv_callback)
  then show ?case using Cons.IH by (simp add: x st)
qed

lemma idle_inv_frame:
  assumes "idle_inv (rt, p)"
  shows "idle_inv (portal_frame time (rt, p))"
proof -
  have "unrun (rafQueue rt) (rt\<lparr>rafQueue := []\<rparr>, p) = (rt, p)" by (simp add: unrun_def)
  then show ?thesis using assms idle_inv_callbacks[of "rafQueue rt" "(rt\<lparr>rafQueue := []\<rparr>, p)" time]
    by (simp add: portal_frame_fold)
qed


lemma transitions_subset: "set (transitions q) \<subseteq> set q"
  by (auto simp: transitions_def)

lemma transitions_filter: "transitions (filter P q) = filter P (transitions q)"
  by (induction q) (auto simp: transitions_def)

lemma resolve_calls_promises:
  "promises rt' = promises rt \<Longrightarrow> resolve_calls rt' pid = resolve_calls rt pid"
  by (simp add: resolve_calls_def)

lemma transition_inv_iff:
  "transition_inv t0 pid (unrun xs (rt, p)) \<longleftrightarrow>
     p_animationId p < rafNext rt
     \<and> (\<forall>x \<in> set xs \<union> set (rafQueue rt). fst x < rafNext rt)
     \<and> p_isTransitioning p \<and> pid < length (promises rt)
     \<and> (\<forall>x \<in> set (transitions xs) \<union> set (transitions (rafQueue rt)).
           snd x = TransitionAnimate t0 pid \<and> fst x \<noteq> p_animationId p)
     \<and> length (transitions xs) + length (transitions (rafQueue rt)) + resolve_calls rt pid = 1"
  by (auto simp: transition_inv_def handles_fresh_def unrun_def resolve_calls_def)

lemma unrun_Nil: "unrun [] st = st"
  by (cases st) (simp add: unrun_def)

lemma transition_inv_callback:
  assumes "transition_inv t0 pid (unrun ((h, cb) # xs) (rt, p))"
  shows "transition_inv t0 pid (unrun xs (portal_callback time cb (rt, p)))"
proof -
  from assms have base:
      "p_animationId p < rafNext rt" "\<forall>x \<in> set xs \<union> set (rafQueue rt). fst x < rafNext rt"
      "p_isTransitioning p" "pid < length (promises rt)"
    by (auto simp: transition_inv_iff)
  have up: "\<forall>x \<in> set xs \<union> set (rafQueue rt). fst x < Suc (rafNext rt)"
    using base(2) by (auto simp: less_SucI)
  have tl: "\<forall>x \<in> set (transitions xs) \<union> set (transitions (rafQueue rt)). fst x < rafNext rt"
    using base(2) transitions_subset by blast
  show ?thesis
  proof (cases cb)
    case PortalAnimate
    from assms PortalAnimate have rest:
        "\<forall>x \<in> set (transitions xs) \<union> set (transitions (rafQueue rt)).
           snd x = TransitionAnimate t0 pid \<and> fst x \<noteq> p_animationId p"
        "length (transitions xs) + length (transitions (rafQueue rt)) + resolve_calls rt pid = 1"
      by (auto simp: transition_inv_iff)
    show ?thesis
    proof (cases rule: portal_animate_effect[of p time rt])
      case skip
      then show ?thesis using base rest PortalAnimate
        by (simp add: portal_callback_def transition_inv_iff)
    next
      case (live rt' p')
      have "\<forall>x \<in> set (transitions xs) \<union> set (transitions (rafQueue rt)).
              snd x = TransitionAnimate t0 pid \<and> fst x \<noteq> rafNext rt"
      proof
        fix x
        assume x: "x \<in> set (transitions xs) \<union> set (transitions (rafQueue rt))"
        from x rest(1) have "snd x = TransitionAnimate t0 pid" by blast
        moreover from x tl have "fst x < rafNext rt" by blast
        ultimately show "snd x = TransitionAnimate t0 pid \<and> fst x \<noteq> rafNext rt" by simp
      qed
      then show ?thesis using base up rest(2) PortalAnimate live
        by (simp add: portal_callback_def transition_inv_iff resolve_calls_promises[OF live(5)])
    qed
  next
    case (WorldAnimate i)
    then show ?thesis using assms by (simp add: portal_callback_def transition_inv_iff)
  next
    case (TransitionAnimate st q)
    from assms TransitionAnimate have same: "st = t0" "q = pid"
      and none: "transitions xs = []" "transitions (rafQueue rt) = []" "resolve_calls rt pid = 0"
      by (auto simp: transition_inv_iff)
    show ?thesis
    proof (cases rule: transitionAnimate_effect[of p st time q rt])
      case (settle p')
      then show ?thesis using base none same TransitionAnimate
        by (simp add: portal_callback_def transition_inv_iff resolve_calls_resolve)
    next
      case (again rt' p')
      then show ?thesis using base up none same TransitionAnimate
        by (simp add: portal_callback_def transition_inv_iff resolve_calls_promises[OF again(6)])
    qed
  qed
qed

lemma transition_inv_callbacks:
  "transition_inv t0 pid (unrun xs st) \<Longrightarrow>
   transition_inv t0 pid (foldl (\<lambda>st (h, cb). portal_callback time cb st) st xs)"
proof (induction xs arbitrary: st)
  case Nil
  then show ?case by (simp add: unrun_Nil)
next
  case (Cons x xs)
  obtain h cb where x: "x = (h, cb)" by (cases x)
  obtain rt p where st: "st = (rt, p)" by (cases st)
  have "transition_inv t0 pid (unrun xs (portal_callback time cb (rt, p)))"
    using Cons.prems unfolding x st by (rule transition_inv_callback)
  then show ?case using Cons.IH by (simp add: x st)
qed

lemma unrun_queue: "unrun (rafQueue rt) (rt\<lparr>rafQueue := []\<rparr>, p) = (rt, p)"
  by (simp add: unrun_def)

lemma transition_inv_frame:
  assumes "transition_inv t0 pid (rt, p)"
  shows "transition_inv t0 pid (portal_frame time (rt, p))"
  using assms transition_inv_callbacks[of t0 pid "rafQueue rt" "(rt\<lparr>rafQueue := []\<rparr>, p)" time]
  by (simp add: portal_frame_fold unrun_queue)

lemma transition_inv_step:
  assumes "transition_inv t0 pid st"
  shows "transition_inv t0 pid (portal_op_step op st)"
proof -
  obtain rt p where st: "st = (rt, p)" by (cases st)
  from assms have i: "transition_inv t0 pid (unrun [] (rt, p))" by (simp add: st unrun_Nil)
  show ?thesis
  proof (cases op)
    case (OpFrame time)
    then show ?thesis using assms by (simp add: portal_op_step_def st transition_inv_frame)
  next
    case (OpTransitionOut time)
    then show ?thesis using assms i
      by (simp add: portal_op_step_def st transitionOut_def transition_inv_iff)
  next
    case OpDestroy
    have "transitions (filter (\<lambda>(i, cb). i \<noteq> p_animationId p) (rafQueue rt)) = transitions (rafQueue rt)"
      unfolding transitions_filter using i by (auto simp: transition_inv_iff filter_id_conv)
    then have "transition_inv t0 pid (unrun [] (portal_destroy (rt, p)))"
      using i unfolding portal_destroy_def cancelAnimationFrame_def
      by (auto simp: transition_inv_iff resolve_calls_def)
    then show ?thesis using OpDestroy by (simp add: portal_op_step_def st unrun_Nil)
  next
    case (OpMouseMove w x y)
    have "transition_inv t0 pid (unrun [] (rt, portal_mousemove w x y p))"
      using i by (simp add: transition_inv_iff portal_mousemove_def)
    then show ?thesis using OpMouseMove by (simp add: portal_op_step_def st unrun_Nil)
  next
    case (OpResize w)
    have "transition_inv t0 pid (unrun [] (rt, portal_resize w p))"
      using i by (simp add: transition_inv_iff portal_resize_def)
    then show ?thesis using OpResize by (simp add: portal_op_step_def st unrun_Nil)
  qed
qed

lemma transition_inv_run:
  "transition_inv t0 pid st \<Longrightarrow> transition_inv t0 pid (portal_run ops st)"
  unfolding portal_run_def by (induction ops arbitrary: st) (simp_all add: transition_inv_step)

lemma idle_inv_step:
  assumes "idle_inv st"
  shows "idle_inv (portal_op_step op st)"
proof -
  obtain rt p where st: "st = (rt, p)" by (cases st)
  from assms have i: "idle_inv (unrun [] (rt, p))" by (simp add: st unrun_Nil)
  show ?thesis
  proof (cases op)
    case (OpFrame time)
    then show ?thesis using assms by (simp add: portal_op_step_def st idle_inv_frame)
  next
    case (OpTransitionOut time)
    have "idle_inv (unrun [] (snd (transitionOut time (rt, p))))"
      using i
      by (auto simp: transitionOut_def new_promise_def requestAnimationFrame_def idle_inv_iff
            less_SucI)
    then show ?thesis using OpTransitionOut by (simp add: portal_op_step_def st unrun_Nil)
  next
    case OpDestroy
    have "idle_inv (unrun [] (portal_destroy (rt, p)))"
      using i unfolding portal_destroy_def cancelAnimationFrame_def
      by (simp add: idle_inv_iff transitions_filter)
    then show ?thesis using OpDestroy by (simp add: portal_op_step_def st unrun_Nil)
  next
    case (OpMouseMove w x y)
    have "idle_inv (unrun [] (rt, portal_mousemove w x y p))"
      using i by (simp add: idle_inv_iff portal_mousemove_def)
    then show ?thesis using OpMouseMove by (simp add: portal_op_step_def st unrun_Nil)
  next
    case (OpResize w)
    have "idle_inv (unrun [] (rt, portal_resize w p))"
      using i by (simp add: idle_inv_iff portal_resize_def)
    then show ?thesis using OpResize by (simp add: portal_op_step_def st unrun_Nil)
  qed
qed

lemma idle_inv_run: "idle_inv st \<Longrightarrow> idle_inv (portal_run ops st)"
  unfolding portal_run_def by (induction ops arbitrary: st) (simp_all add: idle_inv_step)

lemma idle_inv_new: "idle_inv (new_PortalScene w positions fresh_runtime)"
  by (simp add: new_PortalScene_def fresh_runtime_def portal_animate_def
        requestAnimationFrame_def idle_inv_def handles_fresh_def Let_def)


lemma transition_inv_plain:
  "transition_inv t0 pid (rt, p) \<longleftrightarrow>
     p_animationId p < rafNext rt
     \<and> (\<forall>x \<in> set (rafQueue rt). fst x < rafNext rt)
     \<and> p_isTransitioning p \<and> pid < length (promises rt)
     \<and> (\<forall>x \<in> set (transitions (rafQueue rt)).
           snd x = TransitionAnimate t0 pid \<and> fst x \<noteq> p_animationId p)
     \<and> length (transitions (rafQueue rt)) + resolve_calls rt pid = 1"
  using transition_inv_iff[of t0 pid "[]" rt p] by (simp add: unrun_def)

lemma idle_inv_plain:
  "idle_inv (rt, p) \<longleftrightarrow>
     p_animationId p < rafNext rt
     \<and> (\<forall>x \<in> set (rafQueue rt). fst x < rafNext rt)
     \<and> (\<not> p_isTransitioning p \<longrightarrow> transitions (rafQueue rt) = [])"
  using idle_inv_iff[of "[]" rt p] by (simp add: unrun_Nil)

lemma transitionOut_starts:
  assumes "idle_inv (rt, p)" and "\<not> p_isTransitioning p"
  shows "fst (transitionOut t0 (rt, p)) = Follows (length (promises rt))"
    and "transition_inv t0 (length (promises rt)) (snd (transitionOut t0 (rt, p)))"
proof -
  have e: "transitionOut t0 (rt, p) =
      (Follows (length (promises rt)),
       rt\<lparr>promises := promises rt @ [0],
          rafQueue := rafQueue rt @ [(rafNext rt, TransitionAnimate t0 (length (promises rt)))],
          rafNext := Suc (rafNext rt)\<rparr>,
       p\<lparr>p_isTransitioning := True\<rparr>)"
    using assms(2) by (simp add: transitionOut_def new_promise_def requestAnimationFrame_def)
  show "fst (transitionOut t0 (rt, p)) = Follows (length (promises rt))" by (simp add: e)
  have "\<forall>x \<in> set (rafQueue rt). fst x < Suc (rafNext rt)"
    using assms(1) by (auto simp: idle_inv_plain less_SucI)
  then show "transition_inv t0 (length (promises rt)) (snd (transitionOut t0 (rt, p)))"
    using assms by (simp add: e transition_inv_plain idle_inv_plain resolve_calls_def)
qed

lemma transition_inv_at_most_once:
  "transition_inv t0 pid st \<Longrightarrow> resolve_calls (fst st) pid \<le> 1"
  by (cases st) (simp add: transition_inv_plain)

text \<open>A frame in which the transition callback cannot ask for another frame.\<close>

lemma settling_callback:
  assumes "transition_inv t0 pid (unrun ((h, cb) # xs) (rt, p))"
    and "transitions (rafQueue rt) = []"
    and "p_isDestroyed p \<or> \<not> js_lt (transition_progress t0 time) (Fin 1)"
  shows "transitions (rafQueue (fst (portal_callback time cb (rt, p)))) = []
       \<and> (p_isDestroyed (snd (portal_callback time cb (rt, p)))
            \<or> \<not> js_lt (transition_progress t0 time) (Fin 1))"
proof (cases cb)
  case PortalAnimate
  show ?thesis
    by (cases rule: portal_animate_effect[of p time rt])
       (use assms PortalAnimate in \<open>auto simp: portal_callback_def\<close>)
next
  case (WorldAnimate i)
  then show ?thesis using assms by (simp add: portal_callback_def)
next
  case (TransitionAnimate st q)
  with assms(1) have same: "st = t0" by (auto simp: transition_inv_iff)
  show ?thesis
    by (cases rule: transitionAnimate_effect[of p st time q rt])
       (use assms TransitionAnimate same in \<open>auto simp: portal_callback_def\<close>)
qed

lemma settling_callbacks:
  assumes "transition_inv t0 pid (unrun xs st)"
    and "transitions (rafQueue (fst st)) = []"
    and "p_isDestroyed (snd st) \<or> \<not> js_lt (transition_progress t0 time) (Fin 1)"
  shows "transitions (rafQueue (fst (foldl (\<lambda>st (h, cb). portal_callback time cb st) st xs))) = []"
  using assms
proof (induction xs arbitrary: st)
  case Nil
  then show ?case by simp
next
  case (Cons x xs)
  obtain h cb where x: "x = (h, cb)" by (cases x)
  obtain rt p where st: "st = (rt, p)" by (cases st)
  have 1: "transition_inv t0 pid (unrun xs (portal_callback time cb (rt, p)))"
    using Cons.prems(1) unfolding x st by (rule transition_inv_callback)
  have 2: "transitions (rafQueue (fst (portal_callback time cb (rt, p)))) = []
       \<and> (p_isDestroyed (snd (portal_callback time cb (rt, p)))
            \<or> \<not> js_lt (transition_progress t0 time) (Fin 1))"
    using Cons.prems unfolding x st by (intro settling_callback) simp_all
  show ?case using Cons.IH[OF 1] 2 by (simp add: x st)
qed

lemma settling_frame:
  assumes "transition_inv t0 pid (rt, p)"
    and "p_isDestroyed p \<or> \<not> js_lt (transition_progress t0 time) (Fin 1)"
  shows "resolve_calls (fst (portal_frame time (rt, p))) pid = 1"
proof -
  obtain rt' p' where f: "portal_frame time (rt, p) = (rt', p')"
    by (cases "portal_frame time (rt, p)") auto
  have "transition_inv t0 pid (rt', p')"
    using transition_inv_frame[OF assms(1), of time] by (simp add: f)
  moreover have "transitions (rafQueue rt') = []"
    using settling_callbacks[of t0 pid "rafQueue rt" "(rt\<lparr>rafQueue := []\<rparr>, p)" time] assms f
    by (simp add: unrun_queue portal_frame_fold)
  ultimately show ?thesis by (simp add: f transition_inv_plain)
qed

text \<open>The calls of \<open>resolve\<close> are never taken back.\<close>

lemma resolve_calls_callback:
  "resolve_calls rt pid \<le> resolve_calls (fst (portal_callback time cb (rt, p))) pid"
proof (cases cb)
  case PortalAnimate
  show ?thesis
    by (cases rule: portal_animate_effect[of p time rt])
       (use PortalAnimate in \<open>auto simp: portal_callback_def resolve_calls_def\<close>)
next
  case (WorldAnimate i)
  then show ?thesis by (simp add: portal_callback_def)
next
  case (TransitionAnimate st q)
  show ?thesis
  proof (cases rule: transitionAnimate_effect[of p st time q rt])
    case (settle p')
    then show ?thesis using TransitionAnimate
      by (simp add: portal_callback_def resolve_calls_resolve)
  next
    case (again rt' p')
    then show ?thesis using TransitionAnimate
      by (simp add: portal_callback_def resolve_calls_promises[OF again(6)])
  qed
qed

lemma resolve_calls_callbacks:
  "resolve_calls (fst st) pid
     \<le> resolve_calls (fst (foldl (\<lambda>st (h, cb). portal_callback time cb st) st xs)) pid"
proof (induction xs arbitrary: st)
  case Nil
  then show ?case by simp
next
  case (Cons x xs)
  obtain h cb where x: "x = (h, cb)" by (cases x)
  obtain rt p where st: "st = (rt, p)" by (cases st)
  have "resolve_calls rt pid \<le> resolve_calls (fst (portal_callback time cb (rt, p))) pid"
    by (rule resolve_calls_callback)
  also have "\<dots> \<le> resolve_calls (fst (foldl (\<lambda>st (h, cb). portal_callback time cb st)
                        (portal_callback time cb (rt, p)) xs)) pid"
    by (rule Cons.IH)
  finally show ?case by (simp add: x st)
qed

lemma resolve_calls_step:
  "resolve_calls (fst st) pid \<le> resolve_calls (fst (portal_op_step op st)) pid"
proof -
  obtain rt p where st: "st = (rt, p)" by (cases st)
  show ?thesis
  proof (cases op)
    case (OpFrame time)
    have "resolve_calls (rt\<lparr>rafQueue := []\<rparr>) pid = resolve_calls rt pid"
      by (simp add: resolve_calls_def)
    then show ?thesis
      using resolve_calls_callbacks[of "(rt\<lparr>rafQueue := []\<rparr>, p)" pid time "rafQueue rt"] OpFrame
      by (simp add: portal_op_step_def st portal_frame_fold)
  next
    case (OpTransitionOut time)
    then show ?thesis
      by (auto simp: portal_op_step_def st transitionOut_def new_promise_def
            requestAnimationFrame_def resolve_calls_def nth_append)
  next
    case OpDestroy
    then show ?thesis
      by (simp add: portal_op_step_def st portal_destroy_def cancelAnimationFrame_def
            resolve_calls_def)
  next
    case (OpMouseMove w x y)
    then show ?thesis by (simp add: portal_op_step_def st)
  next
    case (OpResize w)
    then show ?thesis by (simp add: portal_op_step_def st)
  qed
qed

lemma resolve_calls_run:
  "resolve_calls (fst st) pid \<le> resolve_calls (fst (portal_run ops st)) pid"
proof (induction ops arbitrary: st)
  case Nil
  then show ?case by (simp add: portal_run_def)
next
  case (Cons op ops)
  have "resolve_calls (fst st) pid \<le> resolve_calls (fst (portal_op_step op st)) pid"
    by (rule resolve_calls_step)
  also have "\<dots> \<le> resolve_calls (fst (portal_run ops (portal_op_step op st))) pid"
    by (rule Cons.IH)
  finally show ?case by (simp add: portal_run_def)
qed

lemma portal_run_append: "portal_run (xs @ ys) st = portal_run ys (portal_run xs st)"
  by (simp add: portal_run_def)

lemma portal_run_Cons: "portal_run (op # ops) st = portal_run ops (portal_op_step op st)"
  by (simp add: portal_run_def)

lemma settled_stays:
  assumes "transition_inv t0 pid st" and "resolve_calls (fst st) pid = 1"
  shows "resolve_calls (fst (portal_run ops st)) pid = 1"
  using transition_inv_at_most_once[OF transition_inv_run[OF assms(1), of ops]]
    resolve_calls_run[of st pid ops] assms(2)
  by simp

text \<open>A destroyed scene is not touched by a frame.\<close>

lemma destroyed_callback:
  "p_isDestroyed p \<Longrightarrow> snd (portal_callback time cb (rt, p)) = p"
  by (cases cb) (simp_all add: portal_callback_def portal_animate_def transitionAnimate_def)

lemma destroyed_callbacks:
  "p_isDestroyed (snd st) \<Longrightarrow>
   snd (foldl (\<lambda>st (h, cb). portal_callback time cb st) st xs) = snd st"
proof (induction xs arbitrary: st)
  case Nil
  then show ?case by simp
next
  case (Cons x xs)
  obtain h cb where x: "x = (h, cb)" by (cases x)
  obtain rt p where st: "st = (rt, p)" by (cases st)
  have "snd (portal_callback time cb (rt, p)) = p"
    using Cons.prems by (simp add: st destroyed_callback)
  then show ?case using Cons.IH[of "portal_callback time cb (rt, p)"] Cons.prems
    by (simp add: x st)
qed

lemma destroyed_frame: "p_isDestroyed p \<Longrightarrow> snd (portal_frame time (rt, p)) = p"
  using destroyed_callbacks[of "(rt\<lparr>rafQueue := []\<rparr>, p)" time "rafQueue rt"]
  by (simp add: portal_frame_fold)

lemma transition_progress_value:
  "transition_progress (Fin t0) (Fin t) = Fin (min ((t - t0) / 0.7) 1)"
  by (simp add: transition_progress_def js_sub_def)

lemma transition_progress_facts:
  assumes "ta \<le> tb"
  shows "\<exists>a b. transition_progress (Fin t0) (Fin ta) = Fin a
             \<and> transition_progress (Fin t0) (Fin tb) = Fin b
             \<and> a \<le> b \<and> b \<le> 1 \<and> (b = 1 \<longleftrightarrow> 0.7 \<le> tb - t0)"
proof -
  have "(ta - t0) / 0.7 \<le> (tb - t0) / 0.7" using assms by (simp add: divide_right_mono)
  then have "min ((ta - t0) / 0.7) 1 \<le> min ((tb - t0) / 0.7) (1::real)" by (simp add: min_def)
  moreover have "min ((tb - t0) / 0.7) 1 = (1::real) \<longleftrightarrow> 0.7 \<le> tb - t0"
    by (auto simp: min_def field_simps)
  ultimately show ?thesis by (simp add: transition_progress_value)
qed

lemma demo_portal_state_facts:
  "\<not> p_isTransitioning (snd demo_portal_state)" "\<not> p_isDestroyed (snd demo_portal_state)"
  "promises (fst demo_portal_state) = []"
  by (simp_all add: demo_portal_state_def new_PortalScene_def portal_animate_def
        requestAnimationFrame_def fresh_runtime_def Let_def)

lemma reachable_idle:
  "(rt, p) = portal_run pre (new_PortalScene w positions fresh_runtime) \<Longrightarrow> idle_inv (rt, p)"
  using idle_inv_run[OF idle_inv_new, of pre w positions] by simp

text \<open>
  C3: take a portal in any state it can reach from its construction, not yet in
  transition. \<^verbatim>\<open>transitionOut\<close> then hands back a promise of its own; whatever happens
  afterwards, the \<^verbatim>\<open>resolve\<close> of that promise has been called at most once, and exactly
  once from the first frame at least 0.7 seconds after the start on; every queued
  transition closure carries the start time of the call, so the progress of a frame is
  \<open>transition_progress\<close> of that start and the frame's clock reading, which never
  decreases when the reading does not, never exceeds 1, and is 1 exactly from 0.7 seconds
  on. A call of \<^verbatim>\<open>transitionOut\<close> on a portal already in transition starts nothing and
  hands back a fulfilled promise.
\<close>

theorem transition_progress_and_single_resolution:
  assumes "(rt, p) = portal_run pre (new_PortalScene w positions fresh_runtime)"
    and "\<not> p_isTransitioning p"
  shows "fst (transitionOut (Fin t0) (rt, p)) = Follows (length (promises rt))
       \<and> resolve_calls
           (fst (portal_run post (snd (transitionOut (Fin t0) (rt, p))))) (length (promises rt)) \<le> 1
       \<and> (0.7 \<le> t - t0 \<longrightarrow>
            resolve_calls
              (fst (portal_run (mid @ OpFrame (Fin t) # post) (snd (transitionOut (Fin t0) (rt, p)))))
              (length (promises rt)) = 1)
       \<and> (\<forall>x \<in> set (transitions (rafQueue (fst (portal_run post
                          (snd (transitionOut (Fin t0) (rt, p))))))).
             snd x = TransitionAnimate (Fin t0) (length (promises rt)))
       \<and> (ta \<le> tb \<longrightarrow>
            (\<exists>a b. transition_progress (Fin t0) (Fin ta) = Fin a
                 \<and> transition_progress (Fin t0) (Fin tb) = Fin b
                 \<and> a \<le> b \<and> b \<le> 1 \<and> (b = 1 \<longleftrightarrow> 0.7 \<le> tb - t0)))
       \<and> (p_isTransitioning p' \<longrightarrow> transitionOut time (rt', p') = (Fulfilled, rt', p'))"
proof -
  let ?pid = "length (promises rt)"
  let ?s1 = "snd (transitionOut (Fin t0) (rt, p))"
  note idle = reachable_idle[OF assms(1)]
  note start = transitionOut_starts[OF idle assms(2), of "Fin t0"]
  have inv: "transition_inv (Fin t0) ?pid (portal_run ops ?s1)" for ops
    by (rule transition_inv_run[OF start(2)])
  have once: "resolve_calls (fst (portal_run post ?s1)) ?pid \<le> 1"
    by (rule transition_inv_at_most_once[OF inv])
  have reached: "resolve_calls (fst (portal_run (mid @ OpFrame (Fin t) # post) ?s1)) ?pid = 1"
    if "0.7 \<le> t - t0"
  proof -
    obtain rt2 p2 where m: "portal_run mid ?s1 = (rt2, p2)" by (cases "portal_run mid ?s1") auto
    have "\<not> js_lt (transition_progress (Fin t0) (Fin t)) (Fin 1)"
      using that by (simp add: transition_progress_value min_def)
    then have "resolve_calls (fst (portal_frame (Fin t) (rt2, p2))) ?pid = 1"
      using settling_frame[of "Fin t0" ?pid rt2 p2 "Fin t"] inv[of mid] by (simp add: m)
    moreover have "transition_inv (Fin t0) ?pid (portal_frame (Fin t) (rt2, p2))"
      using transition_inv_frame[of "Fin t0" ?pid rt2 p2 "Fin t"] inv[of mid] by (simp add: m)
    ultimately have "resolve_calls (fst (portal_run post (portal_frame (Fin t) (rt2, p2)))) ?pid = 1"
      by (intro settled_stays)
    then show ?thesis
      by (simp add: portal_run_append portal_run_Cons portal_op_step_def m)
  qed
  have carried: "\<forall>x \<in> set (transitions (rafQueue (fst (portal_run post ?s1)))).
             snd x = TransitionAnimate (Fin t0) ?pid"
    using inv[of post] by (cases "portal_run post ?s1") (simp add: transition_inv_plain)
  have again: "p_isTransitioning p' \<longrightarrow> transitionOut time (rt', p') = (Fulfilled, rt', p')"
    by (simp add: transitionOut_def)
  show ?thesis
    using start(1) once reached carried transition_progress_facts[of ta tb t0] again by blast
qed

theorem transition_progress_and_single_resolution_witness:
  "\<not> p_isTransitioning (snd demo_portal_state) \<and> (0.7::real) \<le> 2.8 - 2 \<and> (2.2::real) \<le> 2.8
   \<and> fst (transitionOut (Fin 2) demo_portal_state) = Follows 0
   \<and> resolve_calls
       (fst (portal_run ([OpFrame (Fin 2.2)] @ OpFrame (Fin 2.8) # [OpFrame (Fin 3)])
               (snd (transitionOut (Fin 2) demo_portal_state)))) 0 = 1
   \<and> (\<exists>a b. transition_progress (Fin 2) (Fin 2.2) = Fin a
          \<and> transition_progress (Fin 2) (Fin 2.8) = Fin b \<and> a \<le> b \<and> b = 1)
   \<and> transitionOut (Fin 2.5) (snd (transitionOut (Fin 2) demo_portal_state))
       = (Fulfilled, snd (transitionOut (Fin 2) demo_portal_state))"
proof -
  have r: "(fst demo_portal_state, snd demo_portal_state)
             = portal_run [] (new_PortalScene demo_window [(Fin 10, Fin 0, Fin (- 5))] fresh_runtime)"
    by (simp add: portal_run_def demo_portal_state_def)
  obtain a b where ab: "demo_portal_state = (a, b)" by (cases demo_portal_state)
  have "\<not> p_isTransitioning b" using demo_portal_state_facts(1) by (simp add: ab)
  then have t: "p_isTransitioning (snd (snd (transitionOut (Fin 2) demo_portal_state)))"
    by (simp add: ab transitionOut_def new_promise_def requestAnimationFrame_def)
  show ?thesis
    using transition_progress_and_single_resolution
            [OF r demo_portal_state_facts(1), of 2 "[OpFrame (Fin 3)]" "2.8" "[OpFrame (Fin 2.2)]"
               "2.2" "2.8" "snd (snd (transitionOut (Fin 2) demo_portal_state))" "Fin 2.5"
               "fst (snd (transitionOut (Fin 2) demo_portal_state))"]
          demo_portal_state_facts t
    by auto
qed

section \<open>Teardown during the transition\<close>

lemma demo_pending_unresolved: "resolve_calls (fst demo_pending) 0 = 0"
  by (simp add: demo_pending_def demo_portal_state_def new_PortalScene_def portal_animate_def
        requestAnimationFrame_def fresh_runtime_def demo_window_def transitionOut_def
        new_promise_def portal_run_def portal_op_step_def portal_frame_def portal_callback_def
        transitionAnimate_def transition_progress_def js_sub_def resolve_calls_def Let_def)

text \<open>
  C10: take a portal in any state it can reach from its construction, call
  \<^verbatim>\<open>transitionOut\<close>, let anything happen that leaves the promise unresolved, then call
  \<^verbatim>\<open>destroy\<close>. The transition closure is still queued; the next frame, at whatever clock
  reading, leaves the scene exactly as \<^verbatim>\<open>destroy\<close> left it (no camera, uniform or
  particle write, no render) and calls \<^verbatim>\<open>resolve\<close> once; nothing that follows calls it
  again.
\<close>

theorem destroy_during_transition_resolves_promise:
  assumes "(rt, p) = portal_run pre (new_PortalScene w positions fresh_runtime)"
    and "\<not> p_isTransitioning p"
    and "(rt2, p2) = portal_run mid (snd (transitionOut t0 (rt, p)))"
    and "resolve_calls rt2 (length (promises rt)) = 0"
    and "(rt3, p3) = portal_destroy (rt2, p2)"
  shows "p_isDestroyed p3
       \<and> snd (portal_frame time (rt3, p3)) = p3
       \<and> resolve_calls (fst (portal_frame time (rt3, p3))) (length (promises rt)) = 1
       \<and> resolve_calls (fst (portal_run post (portal_frame time (rt3, p3)))) (length (promises rt)) = 1
       \<and> (\<exists>h. (h, TransitionAnimate t0 (length (promises rt))) \<in> set (rafQueue rt3))"
proof -
  let ?pid = "length (promises rt)"
  note idle = reachable_idle[OF assms(1)]
  note start = transitionOut_starts[OF idle assms(2), of t0]
  have inv2: "transition_inv t0 ?pid (rt2, p2)"
    using transition_inv_run[OF start(2), of mid] assms(3) by simp
  have inv3: "transition_inv t0 ?pid (rt3, p3)"
    using transition_inv_step[OF inv2, of OpDestroy] assms(5) by (simp add: portal_op_step_def)
  have d: "p_isDestroyed p3" using assms(5) by (simp add: portal_destroy_def)
  have rc3: "resolve_calls rt3 ?pid = 0"
    using assms(4,5)
    by (auto simp: portal_destroy_def cancelAnimationFrame_def resolve_calls_def split: if_splits)
  have one: "resolve_calls (fst (portal_frame time (rt3, p3))) ?pid = 1"
    using settling_frame[OF inv3, of time] d by simp
  have stays: "resolve_calls (fst (portal_run post (portal_frame time (rt3, p3)))) ?pid = 1"
    using settled_stays[OF transition_inv_frame[OF inv3, of time] one] .
  have "length (transitions (rafQueue rt3)) = 1"
    using inv3 rc3 by (simp add: transition_inv_plain)
  then obtain x where x: "x \<in> set (transitions (rafQueue rt3))"
    by (cases "transitions (rafQueue rt3)") auto
  then have "snd x = TransitionAnimate t0 ?pid" using inv3 by (simp add: transition_inv_plain)
  moreover have "x \<in> set (rafQueue rt3)" using x transitions_subset by blast
  ultimately have q: "\<exists>h. (h, TransitionAnimate t0 ?pid) \<in> set (rafQueue rt3)"
    by (cases x) auto
  show ?thesis using d destroyed_frame[OF d] one stays q by simp
qed

theorem destroy_during_transition_resolves_promise_witness:
  "\<not> p_isTransitioning (snd demo_portal_state)
   \<and> resolve_calls (fst demo_pending) 0 = 0
   \<and> p_isDestroyed (snd (portal_destroy demo_pending))
   \<and> snd (portal_frame (Fin 2.3) (portal_destroy demo_pending)) = snd (portal_destroy demo_pending)
   \<and> resolve_calls (fst (portal_frame (Fin 2.3) (portal_destroy demo_pending))) 0 = 1
   \<and> resolve_calls
       (fst (portal_run [OpFrame (Fin 2.4)] (portal_frame (Fin 2.3) (portal_destroy demo_pending)))) 0
     = 1"
proof -
  have r: "(fst demo_portal_state, snd demo_portal_state)
             = portal_run [] (new_PortalScene demo_window [(Fin 10, Fin 0, Fin (- 5))] fresh_runtime)"
    by (simp add: portal_run_def demo_portal_state_def)
  have m: "(fst demo_pending, snd demo_pending)
             = portal_run [OpFrame (Fin 2.2)]
                 (snd (transitionOut (Fin 2) (fst demo_portal_state, snd demo_portal_state)))"
    by (simp add: demo_pending_def)
  have u: "resolve_calls (fst demo_pending) (length (promises (fst demo_portal_state))) = 0"
    using demo_pending_unresolved by (simp add: demo_portal_state_facts)
  have d: "(fst (portal_destroy demo_pending), snd (portal_destroy demo_pending))
             = portal_destroy (fst demo_pending, snd demo_pending)"
    by simp
  show ?thesis
    using destroy_during_transition_resolves_promise
            [OF r demo_portal_state_facts(1) m u d, of "Fin 2.3" "[OpFrame (Fin 2.4)]"]
          demo_portal_state_facts demo_pending_unresolved
    by simp
qed

end
